theory Spec2Isabelle
  imports Main "HOL-Library.Word"
begin

section \<open>Wire data\<close>

text \<open>
  The session engine of \<^verbatim>\<open>src/iMeshDevice.ts\<close> (class \<^verbatim>\<open>IMeshDevice\<close>) and the
  \<^verbatim>\<open>disconnect\<close> of its HTTP transport (class \<^verbatim>\<open>IHTTPConnection\<close>). A
  \<^verbatim>\<open>Uint8Array\<close> is a list of bytes, a JavaScript \<^verbatim>\<open>number\<close> holding an id, a
  node number or an index is a \<open>nat\<close>.
\<close>

type_synonym Uint8Array = "8 word list"

text \<open>
  \<^verbatim>\<open>PortNum\<close>: the names the dispatcher switches on, and those of the enum in
  \<^verbatim>\<open>protobufs/portnums.ts\<close>. A number off the enum is \<open>UnnamedPort\<close>.
\<close>

datatype PortNum =
    UNKNOWN_APP | TEXT_MESSAGE_APP | REMOTE_HARDWARE_APP | POSITION_APP
  | NODEINFO_APP | ROUTING_APP | ADMIN_APP | REPLY_APP | IP_TUNNEL_APP
  | SERIAL_APP | STORE_FORWARD_APP | RANGE_TEST_APP | TELEMETRY_APP
  | PRIVATE_APP | ATAK_FORWARDER | MAX' | UnnamedPort nat

text \<open>\<^verbatim>\<open>Protobuf.PortNum[portNum]\<close>: the reverse mapping of the enum, undefined off it.\<close>

fun PortNum_name :: "PortNum \<Rightarrow> string option" where
  "PortNum_name UNKNOWN_APP = Some ''UNKNOWN_APP''"
| "PortNum_name TEXT_MESSAGE_APP = Some ''TEXT_MESSAGE_APP''"
| "PortNum_name REMOTE_HARDWARE_APP = Some ''REMOTE_HARDWARE_APP''"
| "PortNum_name POSITION_APP = Some ''POSITION_APP''"
| "PortNum_name NODEINFO_APP = Some ''NODEINFO_APP''"
| "PortNum_name ROUTING_APP = Some ''ROUTING_APP''"
| "PortNum_name ADMIN_APP = Some ''ADMIN_APP''"
| "PortNum_name REPLY_APP = Some ''REPLY_APP''"
| "PortNum_name IP_TUNNEL_APP = Some ''IP_TUNNEL_APP''"
| "PortNum_name SERIAL_APP = Some ''SERIAL_APP''"
| "PortNum_name STORE_FORWARD_APP = Some ''STORE_FORWARD_APP''"
| "PortNum_name RANGE_TEST_APP = Some ''RANGE_TEST_APP''"
| "PortNum_name TELEMETRY_APP = Some ''TELEMETRY_APP''"
| "PortNum_name PRIVATE_APP = Some ''PRIVATE_APP''"
| "PortNum_name ATAK_FORWARDER = Some ''ATAK_FORWARDER''"
| "PortNum_name MAX' = Some ''MAX''"
| "PortNum_name (UnnamedPort n) = None"

text \<open>
  The generated message types are not part of the sources. A message the engine only
  forwards is kept as an opaque value standing for its content.
\<close>

datatype Location = Location nat
datatype Position = Position nat
datatype User = User nat
datatype Channel = Channel nat
datatype Config = Config nat
datatype ModuleConfig = ModuleConfig nat
datatype LogRecord = LogRecord nat
datatype HardwareMessage = HardwareMessage nat
datatype Routing = Routing nat
datatype Telemetry = Telemetry nat

record MyNodeInfo =
  myNodeNum :: nat
  maxChannels :: nat
  firmwareVersion :: string

definition MyNodeInfo_create :: MyNodeInfo where
  "MyNodeInfo_create = \<lparr>myNodeNum = 0, maxChannels = 0, firmwareVersion = []\<rparr>"

record NodeInfo =
  num :: nat
  position :: "Position option"
  user :: "User option"

record Data =
  payload :: Uint8Array
  portnum :: PortNum
  wantResponse :: bool
  location :: "Location option"
  emoji :: nat
  replyId :: nat
  dest :: nat
  requestId :: nat
  source :: nat

text \<open>The \<^verbatim>\<open>payloadVariant\<close> of a mesh packet, by its \<^verbatim>\<open>oneofKind\<close>.\<close>

datatype MeshPayload = decoded Data | encrypted Uint8Array | noPayload

record MeshPacket =
  from' :: nat
  to' :: nat
  id' :: nat
  wantAck :: bool
  channel :: nat
  payloadVariant :: MeshPayload

text \<open>\<^verbatim>\<open>MeshPacket.create({id, from})\<close>: the fields not given take their defaults.\<close>

definition MeshPacket_create :: "nat \<Rightarrow> nat \<Rightarrow> MeshPacket" where
  "MeshPacket_create i f =
     \<lparr>from' = f, to' = 0, id' = i, wantAck = False, channel = 0, payloadVariant = noPayload\<rparr>"

datatype AdminMessage =
    Admin_getChannelRequest nat
  | Admin_getChannelResponse Channel
  | Admin_getOwnerResponse User
  | Admin_getConfigResponse Config
  | Admin_getModuleConfigResponse ModuleConfig
  | Admin_other

datatype ToRadio =
    ToRadio_packet MeshPacket
  | ToRadio_wantConfigId nat
  | ToRadio_peerInfo nat bool

datatype FromRadioVariant =
    FromRadio_packet MeshPacket
  | FromRadio_myInfo MyNodeInfo
  | FromRadio_nodeInfo NodeInfo
  | FromRadio_config Config
  | FromRadio_logRecord LogRecord
  | FromRadio_configCompleteId nat
  | FromRadio_rebooted bool
  | FromRadio_moduleConfig ModuleConfig
  | FromRadio_none

record FromRadio =
  fromRadio_id :: nat
  fromRadio_payloadVariant :: FromRadioVariant

section \<open>Status, log entries and events\<close>

datatype DeviceStatusEnum =
    DEVICE_DISCONNECTED | DEVICE_CONNECTING | DEVICE_RECONNECTING
  | DEVICE_CONNECTED | DEVICE_CONFIGURING | DEVICE_CONFIGURED

datatype LogRecord_Level = TRACE | DEBUG | INFO | WARNING | ERROR | CRITICAL

datatype EmitterScope = Scope_iMeshDevice | Scope_iHttpConnection

datatype Emitter =
    Emitter_sendText | Emitter_sendLocation | Emitter_sendPacket | Emitter_sendRaw
  | Emitter_getChannel | Emitter_getAllChannels | Emitter_configure
  | Emitter_handleFromRadio | Emitter_handleMeshPacket

text \<open>
  A log message is a template literal: its pieces in order, a number interpolated into it
  kept as a number.
\<close>

datatype MsgPart = Str string | Num nat

record LogEventPacket =
  scope :: EmitterScope
  emitter :: Emitter
  message :: "MsgPart list"
  level :: LogRecord_Level
  packet :: "Uint8Array option"

text \<open>
  A completion callback is a function of the application, or the callback that only
  resolves (the default of \<^verbatim>\<open>sendRaw\<close> and the entries of the local array of
  \<^verbatim>\<open>getAllChannels\<close>). An application callback is known by a tag; calling it is an
  event of the trace.
\<close>

datatype Callback = Resolve | App nat

text \<open>
  What the session does to the outside, in order: one constructor for each
  \<^verbatim>\<open>SubEvent\<close> channel that \<^verbatim>\<open>emit\<close> is called on, one for a call of the abstract
  \<^verbatim>\<open>writeToRadio\<close>, one for a call of an application callback, one for
  \<^verbatim>\<open>clearInterval\<close>. The dates of a log entry and of a heartbeat are left out.
\<close>

datatype Event =
    onLogEvent LogEventPacket
  | onFromRadio FromRadio
  | onMeshPacket MeshPacket
  | onMyNodeInfo MyNodeInfo
  | onNodeInfoPacket MeshPacket NodeInfo
  | onUserPacket MeshPacket User
  | onChannelPacket MeshPacket Channel
  | onConfigPacket MeshPacket Config
  | onModuleConfigPacket MeshPacket ModuleConfig
  | onPingPacket MeshPacket Uint8Array
  | onIpTunnelPacket MeshPacket Uint8Array
  | onSerialPacket MeshPacket Uint8Array
  | onStoreForwardPacket MeshPacket Uint8Array
  | onRangeTestPacket MeshPacket Uint8Array
  | onTelemetryPacket MeshPacket Telemetry
  | onPrivatePacket MeshPacket Uint8Array
  | onAtakPacket MeshPacket Uint8Array
  | onRoutingPacket MeshPacket Routing
  | onPositionPacket MeshPacket Position
  | onTextPacket MeshPacket string
  | onRemoteHardwarePacket MeshPacket HardwareMessage
  | onDeviceStatus DeviceStatusEnum
  | onLogRecord LogRecord
  | onMeshHeartbeat
  | writeToRadio Uint8Array
  | callbackCalled nat "nat option"
  | clearInterval nat

section \<open>The session\<close>

record QueueItem =
  item_id :: nat
  item_data :: Uint8Array
  item_callback :: Callback
  waitingAck :: bool

text \<open>
  The fields of \<^verbatim>\<open>IMeshDevice\<close>, and what the model adds to make effects explicit:
  \<open>subscribed\<close> (the two subscriptions of the constructor are attached, until
  \<^verbatim>\<open>cancelAll\<close>), \<open>trace\<close> (the events so far), \<open>randomSource\<close> and
  \<open>randomDraws\<close> (the values \<^verbatim>\<open>Math.floor(Math.random() * 1e9)\<close> yields, and how many
  were taken), \<open>timeouts\<close> (the calls \<^verbatim>\<open>sendRaw(id, data)\<close> that \<^verbatim>\<open>setTimeout\<close>
  holds back).
\<close>

record IMeshDevice =
  deviceStatus :: DeviceStatusEnum
  isConfigured :: bool
  myNodeInfo :: MyNodeInfo
  configId :: nat
  queue :: "QueueItem list"
  subscribed :: bool
  trace :: "Event list"
  randomSource :: "nat \<Rightarrow> nat"
  randomDraws :: nat
  timeouts :: "(nat \<times> Uint8Array) list"

text \<open>
  What the engine takes from its collaborators: the wire codec (generated code, not in
  the sources), the text encoder and decoder, the constants of \<^verbatim>\<open>constants.ts\<close>
  (\<^verbatim>\<open>BROADCAST_NUM\<close>; \<^verbatim>\<open>MIN_FW_VERSION\<close> as it prints, and the test
  \<^verbatim>\<open>parseFloat(v) < MIN_FW_VERSION\<close> as a predicate on the version string), and the queue's test whether a request wants an acknowledgment. A
  decoder that rejects its input (it throws in the source) gives \<open>None\<close>.
\<close>

record Env =
  ToRadio_toBinary :: "ToRadio \<Rightarrow> Uint8Array"
  AdminMessage_toBinary :: "AdminMessage \<Rightarrow> Uint8Array"
  AdminMessage_fromBinary :: "Uint8Array \<Rightarrow> AdminMessage option"
  HardwareMessage_fromBinary :: "Uint8Array \<Rightarrow> HardwareMessage option"
  Position_fromBinary :: "Uint8Array \<Rightarrow> Position option"
  User_fromBinary :: "Uint8Array \<Rightarrow> User option"
  Routing_fromBinary :: "Uint8Array \<Rightarrow> Routing option"
  Telemetry_fromBinary :: "Uint8Array \<Rightarrow> Telemetry option"
  TextEncoder_encode :: "string \<Rightarrow> Uint8Array"
  TextDecoder_decode :: "Uint8Array \<Rightarrow> string"
  BROADCAST_NUM :: nat
  MIN_FW_VERSION :: string
  firmwareOutdated :: "string \<Rightarrow> bool"
  wantsAck :: "QueueItem \<Rightarrow> bool"

text \<open>
  \<^verbatim>\<open>emit\<close> on a channel. The constructor subscribes to \<^verbatim>\<open>onDeviceStatus\<close> (it
  stores the status and sets or resets \<^verbatim>\<open>isConfigured\<close>) and to \<^verbatim>\<open>onMyNodeInfo\<close> (it
  stores the node info); both run inside the \<^verbatim>\<open>emit\<close>, while they are attached.
\<close>

definition emit :: "Event \<Rightarrow> 'a IMeshDevice_scheme \<Rightarrow> 'a IMeshDevice_scheme" where
  "emit e s =
     (let s' = s\<lparr>trace := trace s @ [e]\<rparr> in
      if \<not> subscribed s then s'
      else (case e of
              onDeviceStatus status \<Rightarrow>
                s'\<lparr>deviceStatus := status,
                   isConfigured :=
                     (if status = DEVICE_CONFIGURED then True
                      else if status = DEVICE_CONFIGURING then False
                      else isConfigured s)\<rparr>
            | onMyNodeInfo info \<Rightarrow> s'\<lparr>myNodeInfo := info\<rparr>
            | _ \<Rightarrow> s'))"

text \<open>\<^verbatim>\<open>this.log\<close>: the entry goes to the log channel (the console sink is left out).\<close>

definition log ::
  "EmitterScope \<Rightarrow> Emitter \<Rightarrow> MsgPart list \<Rightarrow> LogRecord_Level \<Rightarrow> Uint8Array option \<Rightarrow>
   'a IMeshDevice_scheme \<Rightarrow> 'a IMeshDevice_scheme" where
  "log sc em msg lv pk s =
     emit (onLogEvent \<lparr>scope = sc, emitter = em, message = msg, level = lv, packet = pk\<rparr>) s"

text \<open>\<^verbatim>\<open>generateRandId\<close>: the next value of the random source, below \<open>1e9\<close>.\<close>

definition generateRandId :: "'a IMeshDevice_scheme \<Rightarrow> nat \<times> 'a IMeshDevice_scheme" where
  "generateRandId s =
     (randomSource s (randomDraws s) mod 1000000000, s\<lparr>randomDraws := Suc (randomDraws s)\<rparr>)"

text \<open>
  The constructor: \<^verbatim>\<open>configId ?? this.generateRandId()\<close>, an empty queue, the status
  \<^verbatim>\<open>DEVICE_DISCONNECTED\<close>. Its argument \<open>rnd\<close> is the random source of the session.
\<close>

definition constructor :: "nat option \<Rightarrow> (nat \<Rightarrow> nat) \<Rightarrow> IMeshDevice" where
  "constructor cid rnd =
     (let s = \<lparr>deviceStatus = DEVICE_DISCONNECTED, isConfigured = False,
               myNodeInfo = MyNodeInfo_create, configId = 0, queue = [],
               subscribed = True, trace = [], randomSource = rnd, randomDraws = 0,
               timeouts = []\<rparr>
      in case cid of
           Some c \<Rightarrow> s\<lparr>configId := c\<rparr>
         | None \<Rightarrow> (let (r, s') = generateRandId s in s'\<lparr>configId := r\<rparr>))"

text \<open>\<^verbatim>\<open>updateDeviceStatus\<close>: emit the status only when it is not the current one.\<close>

definition updateDeviceStatus ::
  "DeviceStatusEnum \<Rightarrow> 'a IMeshDevice_scheme \<Rightarrow> 'a IMeshDevice_scheme" where
  "updateDeviceStatus status s =
     (if status \<noteq> deviceStatus s then emit (onDeviceStatus status) s else s)"

section \<open>The send queue\<close>

text \<open>
  Modelled from the spec: the class \<^verbatim>\<open>Queue\<close> of \<^verbatim>\<open>utils/queue.ts\<close> is not in the
  sources; only its calls are (\<^verbatim>\<open>push\<close>, \<^verbatim>\<open>processQueue\<close>, \<^verbatim>\<open>processAck\<close>,
  \<^verbatim>\<open>clear\<close>). \<open>push\<close> "appends to the tail of an ordered sequence (FIFO)"; the check
  of the frame size is in \<^verbatim>\<open>sendRaw\<close>.
\<close>

definition push :: "QueueItem \<Rightarrow> 'a IMeshDevice_scheme \<Rightarrow> 'a IMeshDevice_scheme" where
  "push item s = s\<lparr>queue := queue s @ [item]\<rparr>"

text \<open>
  Modelled from the spec: \<^verbatim>\<open>clear\<close> "discards all pending items without invoking
  callbacks".
\<close>

definition clear :: "'a IMeshDevice_scheme \<Rightarrow> 'a IMeshDevice_scheme" where
  "clear s = s\<lparr>queue := []\<rparr>"

text \<open>The abstract \<^verbatim>\<open>writeToRadio\<close> of the transport: the call is an event.\<close>

definition transportWrite :: "Uint8Array \<Rightarrow> 'a IMeshDevice_scheme \<Rightarrow> 'a IMeshDevice_scheme" where
  "transportWrite d s = s\<lparr>trace := trace s @ [writeToRadio d]\<rparr>"

text \<open>
  Modelled from the spec: the drain of \<^verbatim>\<open>processQueue\<close>. It "repeatedly takes the head
  item not yet awaitingAck; if the request wants acknowledgment, marks it awaitingAck =
  true and suspends further sends until that id is acknowledged; if it does not want
  acknowledgment, sends it and immediately advances to the next item". The result is the
  frames handed to the send function, in order, and the queue left: an item sent without
  acknowledgment is taken off the queue, the item sent with one stays, marked. The timeout
  of the spec is left out.
\<close>

fun drain :: "(QueueItem \<Rightarrow> bool) \<Rightarrow> QueueItem list \<Rightarrow> Uint8Array list \<times> QueueItem list" where
  "drain g [] = ([], [])"
| "drain g (x # xs) =
     (if waitingAck x then (let (fs, q) = drain g xs in (fs, x # q))
      else if g x then ([item_data x], x\<lparr>waitingAck := True\<rparr> # xs)
      else (let (fs, q) = drain g xs in (item_data x # fs, q)))"

text \<open>
  Modelled from the spec: \<^verbatim>\<open>processQueue(sendFn)\<close>, with \<^verbatim>\<open>writeToRadio\<close> as the send
  function (the only one the sources pass). While an item awaits its acknowledgment the
  drain stays suspended ("at most one QueueItem may be awaitingAck = true at any time").
\<close>

definition processQueue :: "Env \<Rightarrow> 'a IMeshDevice_scheme \<Rightarrow> 'a IMeshDevice_scheme" where
  "processQueue env s =
     (if list_ex waitingAck (queue s) then s
      else (let (fs, q) = drain (wantsAck env) (queue s)
            in foldl (\<lambda>s' d. transportWrite d s') (s\<lparr>queue := q\<rparr>) fs))"

text \<open>Calling a completion callback with the id it is given.\<close>

definition callCallback :: "Callback \<Rightarrow> nat option \<Rightarrow> 'a IMeshDevice_scheme \<Rightarrow> 'a IMeshDevice_scheme" where
  "callCallback cb arg s =
     (case cb of Resolve \<Rightarrow> s | App k \<Rightarrow> s\<lparr>trace := trace s @ [callbackCalled k arg]\<rparr>)"

text \<open>
  Modelled from the spec: \<^verbatim>\<open>processAck(id)\<close> "removes the matching item, invokes its
  onAck callback, and resumes draining"; for an id not in the queue it "is a no-op".
\<close>

definition processAck :: "Env \<Rightarrow> nat \<Rightarrow> 'a IMeshDevice_scheme \<Rightarrow> 'a IMeshDevice_scheme" where
  "processAck env i s =
     (case find (\<lambda>x. item_id x = i) (queue s) of
        None \<Rightarrow> s
      | Some x \<Rightarrow>
          processQueue env
            (callCallback (item_callback x) (Some i) (s\<lparr>queue := remove1 x (queue s)\<rparr>)))"

section \<open>Sending\<close>

text \<open>
  \<^verbatim>\<open>sendRaw\<close>: a frame longer than 512 bytes is logged and goes no further; any other
  is pushed with its callback (the resolving one when none is given) and the queue is
  processed.
\<close>

definition sendRaw ::
  "Env \<Rightarrow> nat \<Rightarrow> Uint8Array \<Rightarrow> Callback option \<Rightarrow>
   'a IMeshDevice_scheme \<Rightarrow> 'a IMeshDevice_scheme" where
  "sendRaw env i toRadio callback s =
     (if length toRadio > 512 then
        log Scope_iMeshDevice Emitter_sendRaw
          [Str ''Message longer than 512 bytes, it will not be sent!''] WARNING None s
      else
        processQueue env
          (push \<lparr>item_id = i, item_data = toRadio,
                 item_callback = (case callback of Some c \<Rightarrow> c | None \<Rightarrow> Resolve),
                 waitingAck = False\<rparr> s))"

section \<open>Inbound packets\<close>

text \<open>
  A payload decoder of the codec throws on bytes it rejects. The exception leaves the
  handler at that point: the result is \<open>Inl\<close> with the session as it was then, and
  \<open>Inr\<close> with the session when the handler returns.
\<close>

datatype error = DecodeError PortNum

type_synonym 's result = "(error \<times> 's) + 's"

definition andThen :: "'s result \<Rightarrow> ('s \<Rightarrow> 's result) \<Rightarrow> 's result" where
  "andThen r f = (case r of Inl e \<Rightarrow> Inl e | Inr s \<Rightarrow> f s)"

definition stateOf :: "'s result \<Rightarrow> 's" where
  "stateOf r = (case r of Inl (e, s) \<Rightarrow> s | Inr s \<Rightarrow> s)"

text \<open>The trace-level log entry every branch of the port dispatch starts with.\<close>

definition received ::
  "string \<Rightarrow> Uint8Array \<Rightarrow> 'a IMeshDevice_scheme \<Rightarrow> 'a IMeshDevice_scheme" where
  "received what pl s =
     log Scope_iMeshDevice Emitter_handleMeshPacket [Str what] TRACE (Some pl) s"

text \<open>A branch that decodes the payload and emits the decoded message.\<close>

definition decodeThen ::
  "PortNum \<Rightarrow> 'm option \<Rightarrow> ('m \<Rightarrow> Event) \<Rightarrow> 'a IMeshDevice_scheme \<Rightarrow>
   'a IMeshDevice_scheme result" where
  "decodeThen p m ev s =
     (case m of None \<Rightarrow> Inl (DecodeError p, s) | Some x \<Rightarrow> Inr (emit (ev x) s))"

text \<open>\<^verbatim>\<open>handleDataPacket\<close>: the dispatch on the port number.\<close>

definition handleDataPacket ::
  "Env \<Rightarrow> Data \<Rightarrow> MeshPacket \<Rightarrow> 'a IMeshDevice_scheme \<Rightarrow> 'a IMeshDevice_scheme result" where
  "handleDataPacket env dataPacket meshPacket s =
     (let pl = payload dataPacket in
      case portnum dataPacket of
        TEXT_MESSAGE_APP \<Rightarrow>
          Inr (emit (onTextPacket meshPacket (TextDecoder_decode env pl))
                 (received ''Received onTextPacket'' pl s))
      | REMOTE_HARDWARE_APP \<Rightarrow>
          decodeThen REMOTE_HARDWARE_APP (HardwareMessage_fromBinary env pl)
            (onRemoteHardwarePacket meshPacket)
            (received ''Received onRemoteHardwarePacket'' pl s)
      | POSITION_APP \<Rightarrow>
          decodeThen POSITION_APP (Position_fromBinary env pl) (onPositionPacket meshPacket)
            (received ''Received onPositionPacket'' pl s)
      | NODEINFO_APP \<Rightarrow>
          decodeThen NODEINFO_APP (User_fromBinary env pl) (onUserPacket meshPacket)
            (received ''Received onUserPacket'' pl s)
      | ROUTING_APP \<Rightarrow>
          decodeThen ROUTING_APP (Routing_fromBinary env pl) (onRoutingPacket meshPacket)
            (received ''Received onRoutingPacket'' pl s)
      | ADMIN_APP \<Rightarrow>
          (let s1 = received ''Received onAdminPacket'' pl s in
           case AdminMessage_fromBinary env pl of
             None \<Rightarrow> Inl (DecodeError ADMIN_APP, s1)
           | Some adminMessage \<Rightarrow>
               Inr (case adminMessage of
                      Admin_getChannelResponse c \<Rightarrow> emit (onChannelPacket meshPacket c) s1
                    | Admin_getOwnerResponse u \<Rightarrow> emit (onUserPacket meshPacket u) s1
                    | Admin_getConfigResponse c \<Rightarrow> emit (onConfigPacket meshPacket c) s1
                    | Admin_getModuleConfigResponse c \<Rightarrow>
                        emit (onModuleConfigPacket meshPacket c) s1
                    | _ \<Rightarrow> s1))
      | REPLY_APP \<Rightarrow>
          Inr (emit (onPingPacket meshPacket pl) (received ''Received onPingPacket'' pl s))
      | IP_TUNNEL_APP \<Rightarrow>
          Inr (emit (onIpTunnelPacket meshPacket pl)
                 (received ''Received onIpTunnelPacket'' pl s))
      | SERIAL_APP \<Rightarrow>
          Inr (emit (onSerialPacket meshPacket pl) (received ''Received onSerialPacket'' pl s))
      | STORE_FORWARD_APP \<Rightarrow>
          Inr (emit (onStoreForwardPacket meshPacket pl)
                 (received ''Received onStoreForwardPacket'' pl s))
      | RANGE_TEST_APP \<Rightarrow>
          Inr (emit (onRangeTestPacket meshPacket pl)
                 (received ''Received onRangeTestPacket'' pl s))
      | TELEMETRY_APP \<Rightarrow>
          decodeThen TELEMETRY_APP (Telemetry_fromBinary env pl) (onTelemetryPacket meshPacket)
            (received ''Received onTelemetryPacket'' pl s)
      | PRIVATE_APP \<Rightarrow>
          Inr (emit (onPrivatePacket meshPacket pl)
                 (received ''Received onPrivatePacket'' pl s))
      | ATAK_FORWARDER \<Rightarrow>
          Inr (emit (onAtakPacket meshPacket pl) (received ''Received onAtakPacket'' pl s))
      | p \<Rightarrow>
          Inr (log Scope_iMeshDevice Emitter_handleMeshPacket
                 [Str ''Unhandled PortNum: '',
                  Str (case PortNum_name p of Some n \<Rightarrow> n | None \<Rightarrow> ''Unknown'')]
                 WARNING (Some pl) s))"

text \<open>
  \<^verbatim>\<open>handleMeshPacket\<close>: the packet event, a heartbeat unless the sender is the local
  node, then for a decoded payload the acknowledgment and the port dispatch, for an
  encrypted one a debug entry.
\<close>

definition handleMeshPacket ::
  "Env \<Rightarrow> MeshPacket \<Rightarrow> 'a IMeshDevice_scheme \<Rightarrow> 'a IMeshDevice_scheme result" where
  "handleMeshPacket env meshPacket s =
     (let s1 = emit (onMeshPacket meshPacket) s;
          s2 = (if from' meshPacket \<noteq> myNodeNum (myNodeInfo s1)
                then emit onMeshHeartbeat s1 else s1)
      in case payloadVariant meshPacket of
           decoded d \<Rightarrow> handleDataPacket env d meshPacket (processAck env (requestId d) s2)
         | encrypted b \<Rightarrow>
             Inr (log Scope_iMeshDevice Emitter_handleMeshPacket
                    [Str ''Device received encrypted data packet, ignoring.''] DEBUG None s2)
         | noPayload \<Rightarrow> Inr s2)"

section \<open>Requests\<close>

text \<open>\<^verbatim>\<open>${destinationNum ?? "broadcast"}\<close> of the log messages.\<close>

definition destinationText :: "nat option \<Rightarrow> MsgPart" where
  "destinationText d = (case d of Some n \<Rightarrow> Num n | None \<Rightarrow> Str ''broadcast'')"

text \<open>
  The packet \<^verbatim>\<open>sendPacket\<close> creates. \<^verbatim>\<open>destinationNum ? destinationNum : BROADCAST_NUM\<close>
  takes the broadcast number for a destination that is absent or zero.
\<close>

definition createMeshPacket ::
  "Env \<Rightarrow> nat \<Rightarrow> nat \<Rightarrow> Uint8Array \<Rightarrow> PortNum \<Rightarrow> nat option \<Rightarrow> bool \<Rightarrow> nat \<Rightarrow> bool \<Rightarrow>
   nat \<Rightarrow> Location option \<Rightarrow> nat \<Rightarrow> MeshPacket" where
  "createMeshPacket env me rid byteData portNum destinationNum wAck chan wResponse
     emo loc rep =
     \<lparr>from' = me,
      to' = (case destinationNum of
               Some n \<Rightarrow> if n \<noteq> 0 then n else BROADCAST_NUM env
             | None \<Rightarrow> BROADCAST_NUM env),
      id' = rid, wantAck = wAck, channel = chan,
      payloadVariant =
        decoded \<lparr>payload = byteData, portnum = portNum, wantResponse = wResponse,
                 location = loc, emoji = emo, replyId = rep, dest = 0, requestId = 0,
                 source = 0\<rparr>\<rparr>"

text \<open>
  \<^verbatim>\<open>sendPacket\<close>: log, build the packet with a random id, encode it, feed it to the
  inbound handler when \<^verbatim>\<open>echoResponse\<close> is set, then \<^verbatim>\<open>sendRaw\<close>.
\<close>

definition sendPacket ::
  "Env \<Rightarrow> Uint8Array \<Rightarrow> PortNum \<Rightarrow> nat option \<Rightarrow> bool \<Rightarrow> nat \<Rightarrow> bool \<Rightarrow> bool \<Rightarrow>
   Callback option \<Rightarrow> nat \<Rightarrow> Location option \<Rightarrow> nat \<Rightarrow>
   'a IMeshDevice_scheme \<Rightarrow> 'a IMeshDevice_scheme result" where
  "sendPacket env byteData portNum destinationNum wAck chan wResponse echoResponse
     callback emo loc rep s =
     (let s1 = log Scope_iMeshDevice Emitter_sendPacket
                 [Str ''Sending '',
                  Str (case PortNum_name portNum of Some n \<Rightarrow> n | None \<Rightarrow> ''Unknown''),
                  Str '' to '', destinationText destinationNum] TRACE None s;
          (rid, s2) = generateRandId s1;
          meshPacket = createMeshPacket env (myNodeNum (myNodeInfo s1)) rid byteData portNum
                         destinationNum wAck chan wResponse emo loc rep;
          toRadio = ToRadio_toBinary env (ToRadio_packet meshPacket)
      in andThen (if echoResponse then handleMeshPacket env meshPacket s2 else Inr s2)
           (\<lambda>s3. Inr (sendRaw env (id' meshPacket) toRadio callback s3)))"

text \<open>\<^verbatim>\<open>sendText\<close>: the encoded text on the text port, echoed to the local handlers.\<close>

definition sendText ::
  "Env \<Rightarrow> string \<Rightarrow> nat option \<Rightarrow> bool \<Rightarrow> nat \<Rightarrow> Callback option \<Rightarrow>
   'a IMeshDevice_scheme \<Rightarrow> 'a IMeshDevice_scheme result" where
  "sendText env text destinationNum wAck chan callback s =
     sendPacket env (TextEncoder_encode env text) TEXT_MESSAGE_APP destinationNum wAck chan
       False True callback 0 None 0
       (log Scope_iMeshDevice Emitter_sendText
          [Str ''Sending message to '', destinationText destinationNum,
           Str '' on channel '', Num chan] DEBUG None s)"

text \<open>\<^verbatim>\<open>sendLocation\<close>: an empty payload on the text port, the location beside it.\<close>

definition sendLocation ::
  "Env \<Rightarrow> Location \<Rightarrow> nat option \<Rightarrow> bool \<Rightarrow> nat \<Rightarrow> Callback option \<Rightarrow>
   'a IMeshDevice_scheme \<Rightarrow> 'a IMeshDevice_scheme result" where
  "sendLocation env loc destinationNum wAck chan callback s =
     sendPacket env [] TEXT_MESSAGE_APP destinationNum wAck chan
       False True callback 0 (Some loc) 0
       (log Scope_iMeshDevice Emitter_sendLocation
          [Str ''Sending location to '', destinationText destinationNum,
           Str '' on channel '', Num chan] DEBUG None s)"

text \<open>\<^verbatim>\<open>${callback ? "with" : "without"}\<close> of the log messages.\<close>

definition withOrWithout :: "Callback option \<Rightarrow> MsgPart" where
  "withOrWithout callback = Str (if callback \<noteq> None then ''with'' else ''without'')"

text \<open>\<^verbatim>\<open>getChannel\<close>: an admin request to the local node, acknowledged, not echoed.\<close>

definition getChannel ::
  "Env \<Rightarrow> nat \<Rightarrow> Callback option \<Rightarrow> 'a IMeshDevice_scheme \<Rightarrow> 'a IMeshDevice_scheme result" where
  "getChannel env index callback s =
     (let s1 = log Scope_iMeshDevice Emitter_getChannel
                 [Str ''Requesting Channel: '', Num index, Str '' '', withOrWithout callback,
                  Str '' callback''] DEBUG None s;
          getChannelRequest = AdminMessage_toBinary env (Admin_getChannelRequest (index + 1))
      in sendPacket env getChannelRequest ADMIN_APP (Some (myNodeNum (myNodeInfo s1)))
           True 0 True False callback 0 None 0 s1)"

text \<open>
  The loop of \<^verbatim>\<open>getAllChannels\<close>: \<^verbatim>\<open>for (let i = 0; i <= this.myNodeInfo.maxChannels;
  i++)\<close>, each turn awaiting \<^verbatim>\<open>getChannel(i, queue[i])\<close> with the resolving callback it
  has just pushed on its local array. The bound is read again at every turn.
\<close>

function getAllChannels_loop ::
  "Env \<Rightarrow> nat \<Rightarrow> 'a IMeshDevice_scheme \<Rightarrow> 'a IMeshDevice_scheme result" where
  "getAllChannels_loop env i s =
     (if i \<le> maxChannels (myNodeInfo s) then
        (case getChannel env i (Some Resolve) s of
           Inl e \<Rightarrow> Inl e
         | Inr s' \<Rightarrow> getAllChannels_loop env (i + 1) s')
      else Inr s)"
  by pat_completeness auto
termination
proof (relation "measure (\<lambda>(env, i, s). Suc (maxChannels (myNodeInfo s)) - i)", goal_cases)
  case 1
  show ?case by simp
next
  case (2 env i s s')
  have writes: "myNodeInfo (foldl (\<lambda>s' d. transportWrite d s') t fs) = myNodeInfo t"
    for fs and t :: "'a IMeshDevice_scheme"
    by (induction fs arbitrary: t) (simp_all add: transportWrite_def)
  have logs: "myNodeInfo (log sc em msg lv pk t) = myNodeInfo t"
    for sc em msg lv pk and t :: "'a IMeshDevice_scheme"
    by (simp add: log_def emit_def Let_def)
  have pq: "myNodeInfo (processQueue env t) = myNodeInfo t" for t :: "'a IMeshDevice_scheme"
    by (simp add: processQueue_def writes split: prod.split)
  have raw: "myNodeInfo (sendRaw env j d cb t) = myNodeInfo t"
    for j d cb and t :: "'a IMeshDevice_scheme"
    by (simp add: sendRaw_def logs pq push_def)
  from 2(2) have "myNodeInfo s' = myNodeInfo s"
    by (auto simp: getChannel_def sendPacket_def generateRandId_def andThen_def Let_def
          raw logs)
  with 2(1) show ?case by simp
qed

declare getAllChannels_loop.simps [simp del]

text \<open>
  \<^verbatim>\<open>getAllChannels\<close>: log, the loop, \<^verbatim>\<open>Promise.all\<close> over the local array (it holds
  functions, so nothing is awaited), then the callback when one is given.
\<close>

definition getAllChannels ::
  "Env \<Rightarrow> Callback option \<Rightarrow> 'a IMeshDevice_scheme \<Rightarrow> 'a IMeshDevice_scheme result" where
  "getAllChannels env callback s =
     andThen
       (getAllChannels_loop env 0
          (log Scope_iMeshDevice Emitter_getAllChannels
             [Str ''Requesting all Channels '', withOrWithout callback, Str '' callback'']
             DEBUG None s))
       (\<lambda>s'. Inr (case callback of Some cb \<Rightarrow> callCallback cb None s' | None \<Rightarrow> s'))"

section \<open>The handshake\<close>

text \<open>
  \<^verbatim>\<open>configure\<close>: log, the status \<^verbatim>\<open>DEVICE_CONFIGURING\<close>, the want-config frame with
  \<^verbatim>\<open>this.configId\<close>, and \<^verbatim>\<open>sendRaw(0, toRadio)\<close> handed to \<^verbatim>\<open>setTimeout\<close>.
\<close>

definition configure :: "Env \<Rightarrow> 'a IMeshDevice_scheme \<Rightarrow> 'a IMeshDevice_scheme" where
  "configure env s =
     (let s1 = log Scope_iMeshDevice Emitter_configure [Str ''Reading device configuration'']
                 DEBUG None s;
          s2 = updateDeviceStatus DEVICE_CONFIGURING s1;
          toRadio = ToRadio_toBinary env (ToRadio_wantConfigId (configId s2))
      in s2\<lparr>timeouts := timeouts s2 @ [(0, toRadio)]\<rparr>)"

text \<open>The timer fires: the oldest call held back runs.\<close>

definition runTimeout :: "Env \<Rightarrow> 'a IMeshDevice_scheme \<Rightarrow> 'a IMeshDevice_scheme" where
  "runTimeout env s =
     (case timeouts s of
        [] \<Rightarrow> s
      | (i, toRadio) # rest \<Rightarrow> sendRaw env i toRadio None (s\<lparr>timeouts := rest\<rparr>))"

text \<open>
  \<^verbatim>\<open>handleFromRadio\<close>, from the decoded message on (a frame \<^verbatim>\<open>FromRadio.fromBinary\<close>
  rejects never reaches the switch).
\<close>

definition handleFromRadio ::
  "Env \<Rightarrow> FromRadio \<Rightarrow> 'a IMeshDevice_scheme \<Rightarrow> 'a IMeshDevice_scheme result" where
  "handleFromRadio env decodedMessage s =
     (let s0 = emit (onFromRadio decodedMessage) s;
          mid = fromRadio_id decodedMessage;
          note = (\<lambda>what. log Scope_iMeshDevice Emitter_handleFromRadio [Str what] TRACE None)
      in case fromRadio_payloadVariant decodedMessage of
           FromRadio_packet p \<Rightarrow> handleMeshPacket env p s0
         | FromRadio_myInfo info \<Rightarrow>
             (let s1 = (if firmwareOutdated env (firmwareVersion info) then
                          log Scope_iMeshDevice Emitter_handleFromRadio
                            [Str ''Device firmware outdated. Min supported: '',
                             Str (MIN_FW_VERSION env), Str '' got : '',
                             Str (firmwareVersion info)] CRITICAL None s0
                        else s0)
              in Inr (note ''Received onMyNodeInfo'' (emit (onMyNodeInfo info) s1)))
         | FromRadio_nodeInfo ni \<Rightarrow>
             (let s1 = note ''Received onNodeInfoPacket'' s0;
                  s2 = emit (onNodeInfoPacket (MeshPacket_create mid 0) ni) s1;
                  s3 = (case position ni of
                          Some pos \<Rightarrow> emit (onPositionPacket (MeshPacket_create mid (num ni)) pos) s2
                        | None \<Rightarrow> s2)
              in Inr (case user ni of
                        Some u \<Rightarrow> emit (onUserPacket (MeshPacket_create mid (num ni)) u) s3
                      | None \<Rightarrow> s3))
         | FromRadio_config c \<Rightarrow>
             Inr (emit (onConfigPacket (MeshPacket_create mid 0) c)
                    (note ''Received onConfigPacket'' s0))
         | FromRadio_logRecord r \<Rightarrow>
             Inr (emit (onLogRecord r) (note ''Received onLogRecord'' s0))
         | FromRadio_configCompleteId cid \<Rightarrow>
             (let s1 = (if cid \<noteq> configId s0 then
                          log Scope_iMeshDevice Emitter_handleFromRadio
                            [Str ''Invalid config id reveived from device, exptected '',
                             Num (configId s0), Str '' but received '', Num cid] ERROR None s0
                        else s0);
                  s2 = sendRaw env 0 (ToRadio_toBinary env (ToRadio_peerInfo 1 False)) None s1
              in andThen (getAllChannels env (Some Resolve) s2)
                   (\<lambda>s3. Inr (updateDeviceStatus DEVICE_CONFIGURED s3)))
         | FromRadio_rebooted b \<Rightarrow> Inr (configure env s0)
         | FromRadio_moduleConfig c \<Rightarrow>
             Inr (emit (onModuleConfigPacket (MeshPacket_create mid 0) c)
                    (note ''Received onModuleConfigPacket'' s0))
         | FromRadio_none \<Rightarrow> Inr s0)"

text \<open>
  \<^verbatim>\<open>complete\<close>: \<^verbatim>\<open>cancelAll\<close> on every channel, which detaches the subscriptions of
  the constructor with all others, then \<^verbatim>\<open>queue.clear()\<close>.
\<close>

definition complete :: "'a IMeshDevice_scheme \<Rightarrow> 'a IMeshDevice_scheme" where
  "complete s = clear (s\<lparr>subscribed := False\<rparr>)"

section \<open>The HTTP transport\<close>

text \<open>
  The fields \<^verbatim>\<open>IHTTPConnection\<close> adds. \<open>readLoop\<close> is the handle of the polling
  interval, or null; \<open>aborted\<close> is the state of the signal of \<^verbatim>\<open>abortController\<close>.
\<close>

record IHTTPConnection = IMeshDevice +
  connType :: string
  url :: string
  receiveBatchRequests :: bool
  readLoop :: "nat option"
  peningRequest :: bool
  aborted :: bool

text \<open>The constructor of the transport, over that of the base class.\<close>

definition IHTTPConnection_constructor :: "nat option \<Rightarrow> (nat \<Rightarrow> nat) \<Rightarrow> IHTTPConnection" where
  "IHTTPConnection_constructor cid rnd =
     IMeshDevice.extend (constructor cid rnd)
       (IHTTPConnection.fields ''http'' ''http://meshtastic.local'' False None False False)"

text \<open>
  \<^verbatim>\<open>disconnect\<close>: abort, ask for the status \<^verbatim>\<open>DEVICE_DISCONNECTED\<close>, and only if a
  read loop was started clear its interval and \<^verbatim>\<open>complete()\<close>.
\<close>

definition disconnect :: "IHTTPConnection \<Rightarrow> IHTTPConnection" where
  "disconnect s =
     (let s1 = s\<lparr>aborted := True\<rparr>;
          s2 = updateDeviceStatus DEVICE_DISCONNECTED s1
      in case readLoop s2 of
           Some h \<Rightarrow> complete (s2\<lparr>trace := trace s2 @ [clearInterval h]\<rparr>)
         | None \<Rightarrow> s2)"

section \<open>Notions the statements use\<close>

text \<open>
  The queue a call of \<open>processQueue\<close> leaves, and the frames it hands to the transport,
  as functions of the queue it finds.
\<close>

definition queueAfter :: "Env \<Rightarrow> QueueItem list \<Rightarrow> QueueItem list" where
  "queueAfter env q = (if list_ex waitingAck q then q else snd (drain (wantsAck env) q))"

definition framesOf :: "Env \<Rightarrow> QueueItem list \<Rightarrow> Uint8Array list" where
  "framesOf env q = (if list_ex waitingAck q then [] else fst (drain (wantsAck env) q))"

text \<open>The queue and the events of \<open>processAck\<close>, as functions of the queue it finds.\<close>

definition ackQueue :: "Env \<Rightarrow> nat \<Rightarrow> QueueItem list \<Rightarrow> QueueItem list" where
  "ackQueue env i q =
     (case find (\<lambda>x. item_id x = i) q of
        None \<Rightarrow> q
      | Some x \<Rightarrow> queueAfter env (remove1 x q))"

definition ackEvents :: "Env \<Rightarrow> nat \<Rightarrow> QueueItem list \<Rightarrow> Event list" where
  "ackEvents env i q =
     (case find (\<lambda>x. item_id x = i) q of
        None \<Rightarrow> []
      | Some x \<Rightarrow>
          (case item_callback x of Resolve \<Rightarrow> [] | App k \<Rightarrow> [callbackCalled k (Some i)])
          @ map writeToRadio (framesOf env (remove1 x q)))"

text \<open>The events that come from the queue: a frame written, a callback called.\<close>

definition isQueueEvent :: "Event \<Rightarrow> bool" where
  "isQueueEvent e =
     (case e of writeToRadio d \<Rightarrow> True | callbackCalled k a \<Rightarrow> True | _ \<Rightarrow> False)"

text \<open>The item \<open>sendRaw\<close> pushes.\<close>

definition itemOf :: "nat \<Rightarrow> Uint8Array \<Rightarrow> Callback option \<Rightarrow> QueueItem" where
  "itemOf i toRadio callback =
     \<lparr>item_id = i, item_data = toRadio,
      item_callback = (case callback of Some c \<Rightarrow> c | None \<Rightarrow> Resolve), waitingAck = False\<rparr>"

text \<open>A frame has been taken by the queue: it waits there, or the transport was given it.\<close>

definition inQueueOrWritten :: "Uint8Array \<Rightarrow> 'a IMeshDevice_scheme \<Rightarrow> bool" where
  "inQueueOrWritten d s \<longleftrightarrow>
     d \<in> item_data ` set (queue s) \<or> writeToRadio d \<in> set (trace s)"

text \<open>A log entry of the scope \<^verbatim>\<open>iMeshDevice\<close>, as an event.\<close>

definition logEntry ::
  "Emitter \<Rightarrow> MsgPart list \<Rightarrow> LogRecord_Level \<Rightarrow> Uint8Array option \<Rightarrow> Event" where
  "logEntry em msg lv pk =
     onLogEvent \<lparr>scope = Scope_iMeshDevice, emitter = em, message = msg, level = lv, packet = pk\<rparr>"

text \<open>The id the next call of \<open>generateRandId\<close> returns.\<close>

definition randId :: "'a IMeshDevice_scheme \<Rightarrow> nat" where
  "randId s = randomSource s (randomDraws s) mod 1000000000"

text \<open>The session without what a send changes: the queue, the trace, the count of draws.\<close>

definition core :: "'a IMeshDevice_scheme \<Rightarrow> 'a IMeshDevice_scheme" where
  "core s = s\<lparr>queue := [], trace := [], randomDraws := 0\<rparr>"

text \<open>The session with events put in front of its trace.\<close>

definition withPrefix :: "Event list \<Rightarrow> 'a IMeshDevice_scheme \<Rightarrow> 'a IMeshDevice_scheme" where
  "withPrefix t s = s\<lparr>trace := t @ trace s\<rparr>"

text \<open>The packet \<open>sendText\<close> builds and echoes.\<close>

definition echoedText ::
  "Env \<Rightarrow> string \<Rightarrow> nat option \<Rightarrow> bool \<Rightarrow> nat \<Rightarrow> 'a IMeshDevice_scheme \<Rightarrow> MeshPacket" where
  "echoedText env text destinationNum wAck chan s =
     createMeshPacket env (myNodeNum (myNodeInfo s)) (randId s) (TextEncoder_encode env text)
       TEXT_MESSAGE_APP destinationNum wAck chan False 0 None 0"

text \<open>
  The frame of the request \<open>getChannel index\<close> sends from the node \<open>me\<close> with the packet
  id \<open>rid\<close>.
\<close>

definition channelFrame :: "Env \<Rightarrow> nat \<Rightarrow> nat \<Rightarrow> nat \<Rightarrow> Uint8Array" where
  "channelFrame env me rid index =
     ToRadio_toBinary env
       (ToRadio_packet
          (createMeshPacket env me rid
             (AdminMessage_toBinary env (Admin_getChannelRequest (index + 1)))
             ADMIN_APP (Some me) True 0 True 0 None 0))"

text \<open>The inbound message that marks the end of the configuration stream.\<close>

definition completeMsg :: "nat \<Rightarrow> nat \<Rightarrow> FromRadio" where
  "completeMsg k cid = \<lparr>fromRadio_id = k, fromRadio_payloadVariant = FromRadio_configCompleteId cid\<rparr>"

text \<open>The error entry for a config id other than the expected one.\<close>

definition invalidConfigId :: "nat \<Rightarrow> nat \<Rightarrow> Event" where
  "invalidConfigId expected cid =
     logEntry Emitter_handleFromRadio
       [Str ''Invalid config id reveived from device, exptected '', Num expected,
        Str '' but received '', Num cid] ERROR None"

text \<open>
  What \<open>handleFromRadio\<close> does after the check of the config id: the peer announcement,
  all channels, the status.
\<close>

definition followUp :: "Env \<Rightarrow> 'a IMeshDevice_scheme \<Rightarrow> 'a IMeshDevice_scheme" where
  "followUp env s =
     updateDeviceStatus DEVICE_CONFIGURED
       (stateOf (getAllChannels env (Some Resolve)
          (sendRaw env 0 (ToRadio_toBinary env (ToRadio_peerInfo 1 False)) None s)))"

text \<open>
  The channel index a log entry of \<open>getChannel\<close> names ("Requesting Channel: i ..."), and
  the indices requested along a trace, in order.
\<close>

definition channelOfLog :: "Event \<Rightarrow> nat option" where
  "channelOfLog e =
     (case e of
        onLogEvent l \<Rightarrow>
          (if emitter l = Emitter_getChannel then
             (case message l of Str a # Num i # rest \<Rightarrow> Some i | _ \<Rightarrow> None)
           else None)
      | _ \<Rightarrow> None)"

definition requestedChannels :: "Event list \<Rightarrow> nat list" where
  "requestedChannels t = List.map_filter channelOfLog t"

section \<open>Concrete inputs\<close>

text \<open>
  A codec to compute with: a frame is a tag byte, followed for a packet by its payload;
  text is encoded character by character. Nothing is sent with an acknowledgment.
\<close>

definition env0 :: Env where
  "env0 =
     \<lparr>ToRadio_toBinary =
        (\<lambda>t. case t of
               ToRadio_packet p \<Rightarrow>
                 (case payloadVariant p of decoded d \<Rightarrow> 1 # payload d | _ \<Rightarrow> [1])
             | ToRadio_wantConfigId n \<Rightarrow> [2]
             | ToRadio_peerInfo a b \<Rightarrow> [3]),
      AdminMessage_toBinary =
        (\<lambda>m. case m of Admin_getChannelRequest n \<Rightarrow> [4, of_nat n] | _ \<Rightarrow> [5]),
      AdminMessage_fromBinary = (\<lambda>b. None),
      HardwareMessage_fromBinary = (\<lambda>b. None),
      Position_fromBinary = (\<lambda>b. None),
      User_fromBinary = (\<lambda>b. None),
      Routing_fromBinary = (\<lambda>b. None),
      Telemetry_fromBinary = (\<lambda>b. None),
      TextEncoder_encode = map of_char,
      TextDecoder_decode = map (\<lambda>w. char_of (unat w)),
      BROADCAST_NUM = 4294967295,
      MIN_FW_VERSION = ''1.3'',
      firmwareOutdated = (\<lambda>v. False),
      wantsAck = (\<lambda>x. False)\<rparr>"

text \<open>The same codec, every request sent with an acknowledgment.\<close>

definition env1 :: Env where
  "env1 = env0\<lparr>wantsAck := (\<lambda>x. True)\<rparr>"

text \<open>A session right after construction with the config id 42, used as a concrete input.\<close>

definition session0 :: IMeshDevice where
  "session0 = constructor (Some 42) (\<lambda>k. 7 + k)"

text \<open>The same session on node 9, which reports 2 as its highest channel index.\<close>

definition sessionNode :: IMeshDevice where
  "sessionNode = session0\<lparr>myNodeInfo := \<lparr>myNodeNum = 9, maxChannels = 2, firmwareVersion = ''1.3''\<rparr>\<rparr>"

text \<open>The same session once configured.\<close>

definition sessionConfigured :: IMeshDevice where
  "sessionConfigured = session0\<lparr>deviceStatus := DEVICE_CONFIGURED, isConfigured := True\<rparr>"

text \<open>
  A session whose want-config frame (id 0) was sent and awaits its acknowledgment, and an
  inbound text packet from node 5 that carries no request id.
\<close>

definition sessionAwaiting :: IMeshDevice where
  "sessionAwaiting = runTimeout env1 (configure env1 session0)"

definition packet0 :: MeshPacket where
  "packet0 =
     \<lparr>from' = 5, to' = 0, id' = 77, wantAck = False, channel = 0,
      payloadVariant =
        decoded \<lparr>payload = [], portnum = TEXT_MESSAGE_APP, wantResponse = False,
                 location = None, emoji = 0, replyId = 0, dest = 0, requestId = 0,
                 source = 0\<rparr>\<rparr>"

text \<open>
  An HTTP session that never started its read loop, with one frame sent and awaiting its
  acknowledgment; and one whose read loop runs.
\<close>

definition httpQueued :: IHTTPConnection where
  "httpQueued = sendRaw env1 5 [1, 2, 3] None (IHTTPConnection_constructor (Some 42) (\<lambda>k. 7 + k))"

definition httpPolling :: IHTTPConnection where
  "httpPolling = httpQueued\<lparr>readLoop := Some 1, deviceStatus := DEVICE_CONNECTED\<rparr>"

section \<open>Status updates\<close>

lemma trace_emit: "trace (emit e s) = trace s @ [e]"
  by (simp add: emit_def Let_def split: Event.split)

lemma deviceStatus_emit_status:
  "subscribed s \<Longrightarrow> deviceStatus (emit (onDeviceStatus st) s) = st"
  by (simp add: emit_def Let_def)

text \<open>
  C7. \<^verbatim>\<open>updateDeviceStatus(st)\<close> emits a status event exactly when \<open>st\<close> is not the
  current status: the trace grows by that one event when it differs and is unchanged
  otherwise. A transition to the status already held leaves the whole session as it was,
  and, while the constructor's subscription is attached, a second call with the same
  status changes nothing more.
\<close>

theorem updateDeviceStatus_emits_iff_changed:
  "trace (updateDeviceStatus st s) =
     (if st \<noteq> deviceStatus s then trace s @ [onDeviceStatus st] else trace s)
   \<and> (st = deviceStatus s \<longrightarrow> updateDeviceStatus st s = s)
   \<and> (subscribed s \<longrightarrow>
        updateDeviceStatus st (updateDeviceStatus st s) = updateDeviceStatus st s)"
  by (simp add: updateDeviceStatus_def trace_emit deviceStatus_emit_status)

theorem updateDeviceStatus_emits_iff_changed_witness:
  "deviceStatus session0 = DEVICE_DISCONNECTED \<and> subscribed session0
   \<and> updateDeviceStatus DEVICE_DISCONNECTED session0 = session0
   \<and> trace (updateDeviceStatus DEVICE_CONNECTING session0) = [onDeviceStatus DEVICE_CONNECTING]
   \<and> updateDeviceStatus DEVICE_CONNECTING (updateDeviceStatus DEVICE_CONNECTING session0)
       = updateDeviceStatus DEVICE_CONNECTING session0"
  using updateDeviceStatus_emits_iff_changed [of DEVICE_DISCONNECTED session0]
        updateDeviceStatus_emits_iff_changed [of DEVICE_CONNECTING session0]
  by (simp add: session0_def constructor_def)

section \<open>Queue operations in closed form\<close>

text \<open>
  Logging, processing the queue, \<open>sendRaw\<close> and \<open>processAck\<close> change the trace and the
  queue only. The lemmas give the session each returns as an update of the one it was
  given, and show that a frame the queue holds stays there or is written.
\<close>

lemma stateOf_simps [simp]: "stateOf (Inr s) = s" "stateOf (Inl (e, s)) = s"
  by (simp_all add: stateOf_def)

lemma logEntry_distinct [simp]:
  "onMeshHeartbeat \<noteq> logEntry em msg lv pk" "logEntry em msg lv pk \<noteq> onMeshHeartbeat"
  "writeToRadio d \<noteq> logEntry em msg lv pk" "logEntry em msg lv pk \<noteq> writeToRadio d"
  "onDeviceStatus st \<noteq> logEntry em msg lv pk" "logEntry em msg lv pk \<noteq> onDeviceStatus st"
  "\<not> isQueueEvent (logEntry em msg lv pk)"
  by (simp_all add: logEntry_def isQueueEvent_def)

lemma emit_log: "emit (onLogEvent p) s = s\<lparr>trace := trace s @ [onLogEvent p]\<rparr>"
  by (simp add: emit_def Let_def)

lemma log_eq:
  "log sc em msg lv pk s =
     s\<lparr>trace := trace s @ [onLogEvent \<lparr>scope = sc, emitter = em, message = msg, level = lv, packet = pk\<rparr>]\<rparr>"
  by (simp add: log_def emit_log)

lemma foldl_transportWrite:
  "foldl (\<lambda>s' d. transportWrite d s') s fs = s\<lparr>trace := trace s @ map writeToRadio fs\<rparr>"
  by (induction fs arbitrary: s) (simp_all add: transportWrite_def)

lemma processQueue_eq:
  "processQueue env s =
     s\<lparr>queue := queueAfter env (queue s),
       trace := trace s @ map writeToRadio (framesOf env (queue s))\<rparr>"
  by (simp add: processQueue_def queueAfter_def framesOf_def foldl_transportWrite
        split: prod.split)

lemma sendRaw_eq:
  "sendRaw env i d cb s =
     (if 512 < length d then
        s\<lparr>trace := trace s @
             [logEntry Emitter_sendRaw
                [Str ''Message longer than 512 bytes, it will not be sent!''] WARNING None]\<rparr>
      else s\<lparr>queue := queueAfter env (queue s @ [itemOf i d cb]),
             trace := trace s @ map writeToRadio (framesOf env (queue s @ [itemOf i d cb]))\<rparr>)"
  by (simp add: sendRaw_def log_eq processQueue_eq push_def itemOf_def logEntry_def)

lemma callCallback_eq:
  "callCallback cb arg s =
     s\<lparr>trace := trace s @ (case cb of Resolve \<Rightarrow> [] | App k \<Rightarrow> [callbackCalled k arg])\<rparr>"
  by (simp add: callCallback_def split: Callback.split)

lemma processAck_eq:
  "processAck env i s =
     (case find (\<lambda>x. item_id x = i) (queue s) of
        None \<Rightarrow> s
      | Some x \<Rightarrow>
          s\<lparr>queue := queueAfter env (remove1 x (queue s)),
            trace := trace s
              @ (case item_callback x of Resolve \<Rightarrow> [] | App k \<Rightarrow> [callbackCalled k (Some i)])
              @ map writeToRadio (framesOf env (remove1 x (queue s)))\<rparr>)"
  by (simp add: processAck_def processQueue_eq callCallback_eq split: option.split)

lemma core_fields [simp]:
  "deviceStatus (core s) = deviceStatus s" "isConfigured (core s) = isConfigured s"
  "myNodeInfo (core s) = myNodeInfo s" "configId (core s) = configId s"
  "subscribed (core s) = subscribed s" "timeouts (core s) = timeouts s"
  by (simp_all add: core_def)

lemma core_eqD:
  assumes "core s' = core s"
  shows "deviceStatus s' = deviceStatus s" "isConfigured s' = isConfigured s"
    "myNodeInfo s' = myNodeInfo s" "configId s' = configId s"
    "subscribed s' = subscribed s" "timeouts s' = timeouts s"
  using assms core_fields by metis+

lemma core_log [simp]: "core (log sc em msg lv pk s) = core s"
  by (simp add: log_eq core_def)

lemma core_processQueue [simp]: "core (processQueue env s) = core s"
  by (simp add: processQueue_eq core_def)

lemma core_sendRaw [simp]: "core (sendRaw env i d cb s) = core s"
  by (simp add: sendRaw_eq core_def)

lemma core_processAck [simp]: "core (processAck env i s) = core s"
  by (simp add: processAck_eq core_def split: option.split)

lemma drain_keeps:
  "x \<in> set q \<Longrightarrow>
     item_data x \<in> set (fst (drain g q)) \<or> item_data x \<in> item_data ` set (snd (drain g q))"
  by (induction q) (auto split: prod.split)

lemma processQueue_keeps:
  "x \<in> set q \<Longrightarrow>
     item_data x \<in> set (framesOf env q) \<or> item_data x \<in> item_data ` set (queueAfter env q)"
  using drain_keeps [of x q "wantsAck env"] by (auto simp: framesOf_def queueAfter_def)

lemma sendRaw_hands_over:
  "length d \<le> 512 \<Longrightarrow> inQueueOrWritten d (sendRaw env i d cb s)"
  using processQueue_keeps [of "itemOf i d cb" "queue s @ [itemOf i d cb]" env]
  by (auto simp: inQueueOrWritten_def sendRaw_eq itemOf_def)

text \<open>
  C3. A frame longer than 512 bytes: \<open>sendRaw\<close> returns the session it was given with
  one warning entry more in the trace and nothing else changed, so the frame is not in the
  queue, no write to the transport is issued for it, and the call returns normally. A
  frame of 512 bytes or fewer is pushed on the queue, which is then processed: afterwards
  the frame waits in the queue or has been written to the transport.
\<close>

theorem sendRaw_frame_limit:
  "(512 < length toRadio \<longrightarrow>
      sendRaw env i toRadio cb s =
        s\<lparr>trace := trace s @
             [logEntry Emitter_sendRaw
                [Str ''Message longer than 512 bytes, it will not be sent!''] WARNING None]\<rparr>)
   \<and> (length toRadio \<le> 512 \<longrightarrow>
        sendRaw env i toRadio cb s =
          processQueue env (s\<lparr>queue := queue s @ [itemOf i toRadio cb]\<rparr>)
        \<and> inQueueOrWritten toRadio (sendRaw env i toRadio cb s))"
proof (intro conjI impI)
  assume "512 < length toRadio"
  then show "sendRaw env i toRadio cb s =
        s\<lparr>trace := trace s @
             [logEntry Emitter_sendRaw
                [Str ''Message longer than 512 bytes, it will not be sent!''] WARNING None]\<rparr>"
    by (simp add: sendRaw_eq)
next
  assume "length toRadio \<le> 512"
  then show "sendRaw env i toRadio cb s =
          processQueue env (s\<lparr>queue := queue s @ [itemOf i toRadio cb]\<rparr>)"
    by (simp add: sendRaw_def push_def itemOf_def)
next
  assume "length toRadio \<le> 512"
  then show "inQueueOrWritten toRadio (sendRaw env i toRadio cb s)"
    by (rule sendRaw_hands_over)
qed

lemma session0_eq:
  "session0 = \<lparr>deviceStatus = DEVICE_DISCONNECTED, isConfigured = False,
               myNodeInfo = MyNodeInfo_create, configId = 42, queue = [],
               subscribed = True, trace = [], randomSource = (\<lambda>k. 7 + k), randomDraws = 0,
               timeouts = []\<rparr>"
  by (simp add: session0_def constructor_def)

theorem sendRaw_frame_limit_witness:
  "512 < length (replicate 513 (0::8 word))
   \<and> queue (sendRaw env0 5 (replicate 513 0) None session0) = []
   \<and> trace (sendRaw env0 5 (replicate 513 0) None session0) =
        [logEntry Emitter_sendRaw
           [Str ''Message longer than 512 bytes, it will not be sent!''] WARNING None]
   \<and> length [1, 2, 3 :: 8 word] \<le> 512
   \<and> trace (sendRaw env0 5 [1, 2, 3] None session0) = [writeToRadio [1, 2, 3]]
   \<and> inQueueOrWritten [1, 2, 3] (sendRaw env0 5 [1, 2, 3] None session0)"
  using sendRaw_frame_limit [of "replicate 513 0" env0 5 None session0]
        sendRaw_frame_limit [of "[1, 2, 3]" env0 5 None session0]
  by (simp add: session0_eq processQueue_eq framesOf_def queueAfter_def itemOf_def env0_def
        inQueueOrWritten_def)

lemma log_entry: "log Scope_iMeshDevice em msg lv pk s = s\<lparr>trace := trace s @ [logEntry em msg lv pk]\<rparr>"
  by (simp add: log_eq logEntry_def)

lemma emit_onMeshPacket: "emit (onMeshPacket p) s = s\<lparr>trace := trace s @ [onMeshPacket p]\<rparr>"
  by (simp add: emit_def Let_def)

lemma emit_onMeshHeartbeat: "emit onMeshHeartbeat s = s\<lparr>trace := trace s @ [onMeshHeartbeat]\<rparr>"
  by (simp add: emit_def Let_def)

lemma emit_onTextPacket: "emit (onTextPacket p t) s = s\<lparr>trace := trace s @ [onTextPacket p t]\<rparr>"
  by (simp add: emit_def Let_def)

lemma handleDataPacket_text:
  "portnum d = TEXT_MESSAGE_APP \<Longrightarrow>
   handleDataPacket env d p s =
     Inr (s\<lparr>trace := trace s @
            [logEntry Emitter_handleMeshPacket [Str ''Received onTextPacket''] TRACE (Some (payload d)),
             onTextPacket p (TextDecoder_decode env (payload d))]\<rparr>)"
  by (simp add: handleDataPacket_def received_def log_entry emit_onTextPacket Let_def)

lemma processAck_eq2:
  "processAck env i s = s\<lparr>queue := ackQueue env i (queue s), trace := trace s @ ackEvents env i (queue s)\<rparr>"
  by (simp add: processAck_eq ackQueue_def ackEvents_def split: option.split)

lemma no_heartbeat_ackEvents: "onMeshHeartbeat \<notin> set (ackEvents env i q)"
  by (auto simp: ackEvents_def split: option.split Callback.split)

lemma handleMeshPacket_text:
  "payloadVariant p = decoded d \<Longrightarrow> portnum d = TEXT_MESSAGE_APP \<Longrightarrow>
   handleMeshPacket env p s =
     Inr (s\<lparr>queue := ackQueue env (requestId d) (queue s),
            trace := trace s @ [onMeshPacket p]
              @ (if from' p \<noteq> myNodeNum (myNodeInfo s) then [onMeshHeartbeat] else [])
              @ ackEvents env (requestId d) (queue s)
              @ [logEntry Emitter_handleMeshPacket [Str ''Received onTextPacket''] TRACE (Some (payload d)),
                 onTextPacket p (TextDecoder_decode env (payload d))]\<rparr>)"
  by (simp add: handleMeshPacket_def emit_onMeshPacket emit_onMeshHeartbeat Let_def processAck_eq2
        handleDataPacket_text)

lemma randId_upd [simp]:
  "randId (s\<lparr>trace := t\<rparr>) = randId s" "randId (s\<lparr>queue := q\<rparr>) = randId s"
  by (simp_all add: randId_def)

lemma generateRandId_randId: "generateRandId s = (randId s, s\<lparr>randomDraws := Suc (randomDraws s)\<rparr>)"
  by (simp add: generateRandId_def randId_def)

lemma handleMeshPacket_created_text:
  "handleMeshPacket env
     (createMeshPacket env me rid b TEXT_MESSAGE_APP dn w c wr e l r) s =
     Inr (s\<lparr>queue := ackQueue env 0 (queue s),
            trace := trace s @ [onMeshPacket (createMeshPacket env me rid b TEXT_MESSAGE_APP dn w c wr e l r)]
              @ (if me \<noteq> myNodeNum (myNodeInfo s) then [onMeshHeartbeat] else [])
              @ ackEvents env 0 (queue s)
              @ [logEntry Emitter_handleMeshPacket [Str ''Received onTextPacket''] TRACE (Some b),
                 onTextPacket (createMeshPacket env me rid b TEXT_MESSAGE_APP dn w c wr e l r)
                   (TextDecoder_decode env b)]\<rparr>)"
proof -
  have pv: "payloadVariant (createMeshPacket env me rid b TEXT_MESSAGE_APP dn w c wr e l r) =
      decoded \<lparr>payload = b, portnum = TEXT_MESSAGE_APP, wantResponse = wr,
                 location = l, emoji = e, replyId = r, dest = 0, requestId = 0, source = 0\<rparr>"
    by (simp add: createMeshPacket_def)
  have fr: "from' (createMeshPacket env me rid b TEXT_MESSAGE_APP dn w c wr e l r) = me"
    by (simp add: createMeshPacket_def)
  show ?thesis
    by (simp add: handleMeshPacket_text [OF pv] fr)
qed

lemma id_createMeshPacket [simp]: "id' (createMeshPacket env me rid b p dn w c wr e l r) = rid"
  by (simp add: createMeshPacket_def)

lemma sendPacket_text_echo:
  "sendPacket env byteData TEXT_MESSAGE_APP destinationNum wAck chan wResponse True callback emo loc rep s =
     (let pkt = createMeshPacket env (myNodeNum (myNodeInfo s)) (randId s) byteData TEXT_MESSAGE_APP
                  destinationNum wAck chan wResponse emo loc rep
      in Inr (sendRaw env (randId s) (ToRadio_toBinary env (ToRadio_packet pkt)) callback
           (s\<lparr>randomDraws := Suc (randomDraws s),
              queue := ackQueue env 0 (queue s),
              trace := trace s @
                [logEntry Emitter_sendPacket
                   [Str ''Sending '', Str ''TEXT_MESSAGE_APP'', Str '' to '', destinationText destinationNum]
                   TRACE None,
                 onMeshPacket pkt]
                @ ackEvents env 0 (queue s)
                @ [logEntry Emitter_handleMeshPacket [Str ''Received onTextPacket''] TRACE (Some byteData),
                   onTextPacket pkt (TextDecoder_decode env byteData)]\<rparr>)))"
  by (simp add: sendPacket_def log_entry generateRandId_randId Let_def
        handleMeshPacket_created_text andThen_def)

text \<open>
  C9. \<open>sendLocation\<close> builds a packet whose decoded payload has the port
  \<open>TEXT_MESSAGE_APP\<close>, no payload bytes, and the location in its location field; that
  packet is echoed to the local handler and its encoding is what \<open>sendRaw\<close> is given.
\<close>

theorem sendLocation_text_port:
  "(let pkt = createMeshPacket env (myNodeNum (myNodeInfo s)) (randId s) [] TEXT_MESSAGE_APP
                destinationNum wAck chan False 0 (Some loc) 0
    in payloadVariant pkt =
         decoded \<lparr>payload = [], portnum = TEXT_MESSAGE_APP, wantResponse = False,
                  location = Some loc, emoji = 0, replyId = 0, dest = 0, requestId = 0,
                  source = 0\<rparr>
       \<and> (\<exists>s3. sendLocation env loc destinationNum wAck chan cb s =
                  Inr (sendRaw env (id' pkt) (ToRadio_toBinary env (ToRadio_packet pkt)) cb s3)
                \<and> onMeshPacket pkt \<in> set (trace s3)))"
  unfolding Let_def
proof (intro conjI)
  show "payloadVariant
     (createMeshPacket env (myNodeNum (myNodeInfo s)) (randId s) [] TEXT_MESSAGE_APP
        destinationNum wAck chan False 0 (Some loc) 0) =
    decoded \<lparr>payload = [], portnum = TEXT_MESSAGE_APP, wantResponse = False,
               location = Some loc, emoji = 0, replyId = 0, dest = 0, requestId = 0,
               source = 0\<rparr>"
    by (simp add: createMeshPacket_def)
next
  show "\<exists>s3. sendLocation env loc destinationNum wAck chan cb s =
      Inr (sendRaw env
             (id' (createMeshPacket env (myNodeNum (myNodeInfo s)) (randId s) []
                     TEXT_MESSAGE_APP destinationNum wAck chan False 0 (Some loc) 0))
             (ToRadio_toBinary env
                (ToRadio_packet
                   (createMeshPacket env (myNodeNum (myNodeInfo s)) (randId s) []
                      TEXT_MESSAGE_APP destinationNum wAck chan False 0 (Some loc) 0)))
             cb s3)
    \<and> onMeshPacket
         (createMeshPacket env (myNodeNum (myNodeInfo s)) (randId s) [] TEXT_MESSAGE_APP
            destinationNum wAck chan False 0 (Some loc) 0)
       \<in> set (trace s3)"
    apply (simp add: sendLocation_def sendPacket_text_echo log_entry Let_def)
    apply (rule exI, rule conjI, rule refl)
    apply simp
    done
qed

theorem sendLocation_text_port_witness:
  "\<exists>s3. sendLocation env0 (Location 3) (Some 9) True 2 None session0 =
          Inr (sendRaw env0 7 [1] None s3)
        \<and> onMeshPacket
            \<lparr>from' = 0, to' = 9, id' = 7, wantAck = True, channel = 2,
             payloadVariant =
               decoded \<lparr>payload = [], portnum = TEXT_MESSAGE_APP, wantResponse = False,
                        location = Some (Location 3), emoji = 0, replyId = 0, dest = 0,
                        requestId = 0, source = 0\<rparr>\<rparr>
          \<in> set (trace s3)"
  using sendLocation_text_port [of env0 session0 "Some 9" True 2 "Location 3" None]
  by (simp add: Let_def randId_def session0_eq MyNodeInfo_create_def createMeshPacket_def env0_def)

lemma sendText_eq:
  "sendText env text destinationNum wAck chan cb s =
     Inr (sendRaw env (randId s)
            (ToRadio_toBinary env (ToRadio_packet (echoedText env text destinationNum wAck chan s))) cb
            (s\<lparr>randomDraws := Suc (randomDraws s),
               queue := ackQueue env 0 (queue s),
               trace := trace s @
                 [logEntry Emitter_sendText
                    [Str ''Sending message to '', destinationText destinationNum,
                     Str '' on channel '', Num chan] DEBUG None,
                  logEntry Emitter_sendPacket
                    [Str ''Sending '', Str ''TEXT_MESSAGE_APP'', Str '' to '',
                     destinationText destinationNum] TRACE None,
                  onMeshPacket (echoedText env text destinationNum wAck chan s)]
                 @ ackEvents env 0 (queue s)
                 @ [logEntry Emitter_handleMeshPacket [Str ''Received onTextPacket''] TRACE
                      (Some (TextEncoder_encode env text)),
                    onTextPacket (echoedText env text destinationNum wAck chan s)
                      (TextDecoder_decode env (TextEncoder_encode env text))]\<rparr>))"
  by (simp add: sendText_def sendPacket_text_echo log_entry Let_def echoedText_def randId_def)

text \<open>
  C10. \<open>sendText\<close> passes the packet it built to the inbound handler before
  \<open>sendRaw\<close> sees it: in the session \<open>s3\<close> that \<open>sendRaw\<close> starts from, the trace already
  ends with the text event carrying the sent text (for a text the codec decodes back), and
  the queue does not hold the frame yet. When the frame exceeds 512 bytes \<open>sendRaw\<close> only
  adds its warning, so the text event has fired although nothing was queued. The sender of
  the echoed packet is the local node, and none of the new events is a heartbeat.
\<close>

theorem sendText_echo_before_queue:
  assumes "TextDecoder_decode env (TextEncoder_encode env text) = text"
  shows "\<exists>s3.
      sendText env text destinationNum wAck chan cb s =
        Inr (sendRaw env (id' (echoedText env text destinationNum wAck chan s))
               (ToRadio_toBinary env
                  (ToRadio_packet (echoedText env text destinationNum wAck chan s))) cb s3)
    \<and> trace s3 = trace s @
          [logEntry Emitter_sendText
             [Str ''Sending message to '', destinationText destinationNum,
              Str '' on channel '', Num chan] DEBUG None,
           logEntry Emitter_sendPacket
             [Str ''Sending '', Str ''TEXT_MESSAGE_APP'', Str '' to '',
              destinationText destinationNum] TRACE None,
           onMeshPacket (echoedText env text destinationNum wAck chan s)]
          @ ackEvents env 0 (queue s)
          @ [logEntry Emitter_handleMeshPacket [Str ''Received onTextPacket''] TRACE
               (Some (TextEncoder_encode env text)),
             onTextPacket (echoedText env text destinationNum wAck chan s) text]
    \<and> queue s3 = ackQueue env 0 (queue s)
    \<and> (512 < length (ToRadio_toBinary env
                        (ToRadio_packet (echoedText env text destinationNum wAck chan s))) \<longrightarrow>
          queue (stateOf (sendText env text destinationNum wAck chan cb s)) = queue s3
          \<and> trace (stateOf (sendText env text destinationNum wAck chan cb s)) =
              trace s3 @ [logEntry Emitter_sendRaw
                            [Str ''Message longer than 512 bytes, it will not be sent!'']
                            WARNING None])
    \<and> from' (echoedText env text destinationNum wAck chan s) = myNodeNum (myNodeInfo s)
    \<and> onMeshHeartbeat \<notin>
          set (drop (length (trace s))
                 (trace (stateOf (sendText env text destinationNum wAck chan cb s))))"
proof -
  let ?pkt = "echoedText env text destinationNum wAck chan s"
  let ?frame = "ToRadio_toBinary env (ToRadio_packet ?pkt)"
  define s3 where "s3 = s\<lparr>randomDraws := Suc (randomDraws s),
               queue := ackQueue env 0 (queue s),
               trace := trace s @
                 [logEntry Emitter_sendText
                    [Str ''Sending message to '', destinationText destinationNum,
                     Str '' on channel '', Num chan] DEBUG None,
                  logEntry Emitter_sendPacket
                    [Str ''Sending '', Str ''TEXT_MESSAGE_APP'', Str '' to '',
                     destinationText destinationNum] TRACE None,
                  onMeshPacket ?pkt]
                 @ ackEvents env 0 (queue s)
                 @ [logEntry Emitter_handleMeshPacket [Str ''Received onTextPacket''] TRACE
                      (Some (TextEncoder_encode env text)),
                    onTextPacket ?pkt text]\<rparr>"
  have idp: "id' ?pkt = randId s" and fr: "from' ?pkt = myNodeNum (myNodeInfo s)"
    by (simp_all add: echoedText_def createMeshPacket_def)
  have run: "sendText env text destinationNum wAck chan cb s =
      Inr (sendRaw env (id' ?pkt) ?frame cb s3)"
    by (simp add: sendText_eq assms idp s3_def)
  have st: "stateOf (sendText env text destinationNum wAck chan cb s) =
      sendRaw env (id' ?pkt) ?frame cb s3"
    by (simp add: run stateOf_def)
  have tr: "trace s3 = trace s @
          [logEntry Emitter_sendText
             [Str ''Sending message to '', destinationText destinationNum,
              Str '' on channel '', Num chan] DEBUG None,
           logEntry Emitter_sendPacket
             [Str ''Sending '', Str ''TEXT_MESSAGE_APP'', Str '' to '',
              destinationText destinationNum] TRACE None,
           onMeshPacket ?pkt]
          @ ackEvents env 0 (queue s)
          @ [logEntry Emitter_handleMeshPacket [Str ''Received onTextPacket''] TRACE
               (Some (TextEncoder_encode env text)),
             onTextPacket ?pkt text]"
    and qu: "queue s3 = ackQueue env 0 (queue s)"
    by (simp_all add: s3_def)
  have hb3: "onMeshHeartbeat \<notin> set (drop (length (trace s)) (trace s3))"
    using no_heartbeat_ackEvents [of env 0 "queue s"] by (simp add: tr logEntry_def)
  have app: "\<exists>evs. trace (sendRaw env (id' ?pkt) ?frame cb s3) = trace s3 @ evs
      \<and> onMeshHeartbeat \<notin> set evs"
    by (auto simp: sendRaw_eq)
  have hb: "onMeshHeartbeat \<notin> set (drop (length (trace s))
       (trace (sendRaw env (id' ?pkt) ?frame cb s3)))"
  proof -
    from app obtain evs where e: "trace (sendRaw env (id' ?pkt) ?frame cb s3) = trace s3 @ evs"
      and n: "onMeshHeartbeat \<notin> set evs" by blast
    have "length (trace s) \<le> length (trace s3)" by (simp add: tr)
    then have "drop (length (trace s)) (trace s3 @ evs) = drop (length (trace s)) (trace s3) @ evs"
      by simp
    with hb3 n show ?thesis by (simp add: e)
  qed
  have dropped: "sendRaw env (id' ?pkt) ?frame cb s3 =
        s3\<lparr>trace := trace s3 @ [logEntry Emitter_sendRaw
                            [Str ''Message longer than 512 bytes, it will not be sent!'']
                            WARNING None]\<rparr>" if "512 < length ?frame"
    using that by (simp add: sendRaw_eq)
  show ?thesis
  proof (intro exI [of _ s3] conjI impI)
    show "sendText env text destinationNum wAck chan cb s =
        Inr (sendRaw env (id' ?pkt) ?frame cb s3)" by (rule run)
    show "trace s3 = trace s @
          [logEntry Emitter_sendText
             [Str ''Sending message to '', destinationText destinationNum,
              Str '' on channel '', Num chan] DEBUG None,
           logEntry Emitter_sendPacket
             [Str ''Sending '', Str ''TEXT_MESSAGE_APP'', Str '' to '',
              destinationText destinationNum] TRACE None,
           onMeshPacket ?pkt]
          @ ackEvents env 0 (queue s)
          @ [logEntry Emitter_handleMeshPacket [Str ''Received onTextPacket''] TRACE
               (Some (TextEncoder_encode env text)),
             onTextPacket ?pkt text]" by (rule tr)
    show "queue s3 = ackQueue env 0 (queue s)" by (rule qu)
    show "queue (stateOf (sendText env text destinationNum wAck chan cb s)) = queue s3"
      if "512 < length ?frame" using dropped [OF that] by (simp add: st)
    show "trace (stateOf (sendText env text destinationNum wAck chan cb s)) =
        trace s3 @ [logEntry Emitter_sendRaw
                      [Str ''Message longer than 512 bytes, it will not be sent!'']
                      WARNING None]"
      if "512 < length ?frame" using dropped [OF that] by (simp add: st)
    show "from' ?pkt = myNodeNum (myNodeInfo s)" by (rule fr)
    show "onMeshHeartbeat \<notin> set (drop (length (trace s))
        (trace (stateOf (sendText env text destinationNum wAck chan cb s))))"
      unfolding st by (rule hb)
  qed
qed

lemma unat_of_char: "unat (of_char c :: 8 word) = of_char c"
proof -
  have "unat (of_nat (of_char c) :: 8 word) = of_char c mod 256"
    by (simp add: unat_of_nat)
  then show ?thesis by (simp add: of_nat_of_char)
qed

lemma env0_text_roundtrip: "TextDecoder_decode env0 (TextEncoder_encode env0 t) = t"
  by (simp add: env0_def comp_def unat_of_char map_idI)

lemma env0_frame_length:
  "length (ToRadio_toBinary env0 (ToRadio_packet (echoedText env0 t dn w c s))) = Suc (length t)"
  by (simp add: env0_def echoedText_def createMeshPacket_def)

theorem sendText_echo_before_queue_witness:
  "TextDecoder_decode env0 (TextEncoder_encode env0 (replicate 512 CHR ''a'')) = replicate 512 CHR ''a''
   \<and> 512 < length (ToRadio_toBinary env0
         (ToRadio_packet (echoedText env0 (replicate 512 CHR ''a'') None False 0 session0)))
   \<and> queue (stateOf (sendText env0 (replicate 512 CHR ''a'') None False 0 None session0)) = []
   \<and> onTextPacket (echoedText env0 (replicate 512 CHR ''a'') None False 0 session0)
         (replicate 512 CHR ''a'')
       \<in> set (trace (stateOf (sendText env0 (replicate 512 CHR ''a'') None False 0 None session0)))
   \<and> onMeshHeartbeat
       \<notin> set (trace (stateOf (sendText env0 (replicate 512 CHR ''a'') None False 0 None session0)))"
proof -
  let ?t = "replicate 512 CHR ''a''"
  have rt: "TextDecoder_decode env0 (TextEncoder_encode env0 ?t) = ?t"
    by (rule env0_text_roundtrip)
  have big: "512 < length (ToRadio_toBinary env0
         (ToRadio_packet (echoedText env0 ?t None False 0 session0)))"
    by (simp add: env0_frame_length)
  have q0: "queue session0 = []" and t0: "trace session0 = []"
    by (simp_all add: session0_eq)
  show ?thesis
    using sendText_echo_before_queue [OF rt, of None False 0 None session0]
    by (auto simp: rt env0_frame_length q0 t0 ackQueue_def ackEvents_def)
qed

section \<open>Channel requests\<close>

text \<open>
  \<open>getChannel\<close> never fails (it does not echo), so the loop of \<open>getAllChannels\<close> runs to
  its end. Properties of the loop are proved by induction along its own recursion.
\<close>

lemma getChannel_eq:
  "getChannel env i cb s =
     Inr (sendRaw env (randId s) (channelFrame env (myNodeNum (myNodeInfo s)) (randId s) i) cb
            (s\<lparr>trace := trace s @
                 [logEntry Emitter_getChannel
                    [Str ''Requesting Channel: '', Num i, Str '' '', withOrWithout cb,
                     Str '' callback''] DEBUG None,
                  logEntry Emitter_sendPacket
                    [Str ''Sending '', Str ''ADMIN_APP'', Str '' to '',
                     destinationText (Some (myNodeNum (myNodeInfo s)))] TRACE None],
               randomDraws := Suc (randomDraws s)\<rparr>))"
  by (simp add: getChannel_def sendPacket_def log_entry generateRandId_randId Let_def
        andThen_def channelFrame_def)

lemma core_upd [simp]:
  "core (s\<lparr>trace := t\<rparr>) = core s" "core (s\<lparr>queue := q\<rparr>) = core s"
  "core (s\<lparr>randomDraws := n\<rparr>) = core s"
  by (simp_all add: core_def)

lemma core_randomSource [simp]: "randomSource (core s) = randomSource s"
  by (simp add: core_def)

lemma core_getChannel: "core (stateOf (getChannel env i cb s)) = core s"
  by (simp add: getChannel_eq stateOf_def)

lemma randomDraws_sendRaw [simp]: "randomDraws (sendRaw env i d cb s) = randomDraws s"
  by (simp add: sendRaw_eq)

lemma randomDraws_getChannel: "randomDraws (stateOf (getChannel env i cb s)) = Suc (randomDraws s)"
  by (simp add: getChannel_eq stateOf_def)

lemma inQueueOrWritten_upd [simp]:
  "inQueueOrWritten d (s\<lparr>randomDraws := n\<rparr>) = inQueueOrWritten d s"
  by (simp add: inQueueOrWritten_def)

lemma inQueueOrWritten_trace_app:
  "inQueueOrWritten d s \<Longrightarrow> inQueueOrWritten d (s\<lparr>trace := trace s @ evs\<rparr>)"
  by (auto simp: inQueueOrWritten_def)

lemma sendRaw_keeps: "inQueueOrWritten d s \<Longrightarrow> inQueueOrWritten d (sendRaw env i d' cb s)"
proof -
  assume a: "inQueueOrWritten d s"
  show ?thesis
  proof (cases "512 < length d'")
    case True
    with a show ?thesis by (auto simp: sendRaw_eq inQueueOrWritten_def)
  next
    case False
    from a consider x where "x \<in> set (queue s)" "item_data x = d"
      | "writeToRadio d \<in> set (trace s)"
      by (auto simp: inQueueOrWritten_def)
    then show ?thesis
    proof cases
      case 1
      then have "x \<in> set (queue s @ [itemOf i d' cb])" by simp
      from processQueue_keeps [OF this, of env] 1(2) False show ?thesis
        by (auto simp: sendRaw_eq inQueueOrWritten_def)
    next
      case 2
      with False show ?thesis by (auto simp: sendRaw_eq inQueueOrWritten_def)
    qed
  qed
qed

lemma getChannel_keeps:
  "inQueueOrWritten d s \<Longrightarrow> inQueueOrWritten d (stateOf (getChannel env i cb s))"
proof -
  assume "inQueueOrWritten d s"
  then have "inQueueOrWritten d (s\<lparr>trace := trace s @
                 [logEntry Emitter_getChannel
                    [Str ''Requesting Channel: '', Num i, Str '' '', withOrWithout cb,
                     Str '' callback''] DEBUG None,
                  logEntry Emitter_sendPacket
                    [Str ''Sending '', Str ''ADMIN_APP'', Str '' to '',
                     destinationText (Some (myNodeNum (myNodeInfo s)))] TRACE None],
               randomDraws := Suc (randomDraws s)\<rparr>)"
    by (auto simp: inQueueOrWritten_def)
  then show ?thesis
    by (simp only: getChannel_eq stateOf_def sum.case sendRaw_keeps)
qed

lemma getChannel_hands_over:
  "length (channelFrame env (myNodeNum (myNodeInfo s)) (randId s) i) \<le> 512 \<Longrightarrow>
   inQueueOrWritten (channelFrame env (myNodeNum (myNodeInfo s)) (randId s) i)
     (stateOf (getChannel env i cb s))"
  by (simp add: getChannel_eq stateOf_def sendRaw_hands_over)

lemma getChannel_Inr: "getChannel env i cb s = Inr (stateOf (getChannel env i cb s))"
  by (simp add: getChannel_eq stateOf_def)

lemma loop_step:
  "getAllChannels_loop env i s =
     (if i \<le> maxChannels (myNodeInfo s)
      then getAllChannels_loop env (i + 1) (stateOf (getChannel env i (Some Resolve) s))
      else Inr s)"
  by (subst getAllChannels_loop.simps) (simp add: getChannel_eq stateOf_def)

lemma loop_props:
  "getAllChannels_loop env i s = Inr (stateOf (getAllChannels_loop env i s))
   \<and> core (stateOf (getAllChannels_loop env i s)) = core s
   \<and> (\<forall>d. inQueueOrWritten d s \<longrightarrow> inQueueOrWritten d (stateOf (getAllChannels_loop env i s)))
   \<and> (\<forall>j. i \<le> j \<longrightarrow> j \<le> maxChannels (myNodeInfo s) \<longrightarrow>
          length (channelFrame env (myNodeNum (myNodeInfo s))
                    (randomSource s (randomDraws s + (j - i)) mod 1000000000) j) \<le> 512 \<longrightarrow>
          inQueueOrWritten
            (channelFrame env (myNodeNum (myNodeInfo s))
               (randomSource s (randomDraws s + (j - i)) mod 1000000000) j)
            (stateOf (getAllChannels_loop env i s)))"
proof (induction env i s rule: getAllChannels_loop.induct)
  case (1 env i s)
  let ?s' = "stateOf (getChannel env i (Some Resolve) s)"
  show ?case
  proof (cases "i \<le> maxChannels (myNodeInfo s)")
    case False
    then show ?thesis by (simp add: loop_step [of env i s] stateOf_def)
  next
    case True
    have step: "getAllChannels_loop env i s = getAllChannels_loop env (i + 1) ?s'"
      using True by (simp add: loop_step [of env i s])
    have c: "core ?s' = core s" by (rule core_getChannel)
    have mi: "myNodeInfo ?s' = myNodeInfo s" and rs: "randomSource ?s' = randomSource s"
      using c core_fields(3) core_randomSource by metis+
    have rd: "randomDraws ?s' = Suc (randomDraws s)" by (rule randomDraws_getChannel)
    note IH = 1 [OF True getChannel_Inr]
    from IH have IH1: "getAllChannels_loop env (i + 1) ?s' =
        Inr (stateOf (getAllChannels_loop env (i + 1) ?s'))" by (rule conjunct1)
    from IH have IH2: "core (stateOf (getAllChannels_loop env (i + 1) ?s')) = core ?s'"
      by blast
    from IH have IH3: "inQueueOrWritten d ?s' \<Longrightarrow>
        inQueueOrWritten d (stateOf (getAllChannels_loop env (i + 1) ?s'))" for d
      by blast
    from IH have IH4: "i + 1 \<le> j \<Longrightarrow> j \<le> maxChannels (myNodeInfo ?s') \<Longrightarrow>
          length (channelFrame env (myNodeNum (myNodeInfo ?s'))
                    (randomSource ?s' (randomDraws ?s' + (j - (i + 1))) mod 1000000000) j) \<le> 512 \<Longrightarrow>
          inQueueOrWritten
            (channelFrame env (myNodeNum (myNodeInfo ?s'))
               (randomSource ?s' (randomDraws ?s' + (j - (i + 1))) mod 1000000000) j)
            (stateOf (getAllChannels_loop env (i + 1) ?s'))" for j
      by blast
    show ?thesis
    proof (intro conjI allI impI)
      show "getAllChannels_loop env i s = Inr (stateOf (getAllChannels_loop env i s))"
        using IH1 by (simp add: step)
      show "core (stateOf (getAllChannels_loop env i s)) = core s"
        using IH2 c by (simp add: step)
      show "inQueueOrWritten d (stateOf (getAllChannels_loop env i s))"
        if "inQueueOrWritten d s" for d
        using IH3 [OF getChannel_keeps [OF that, of env i "Some Resolve"]] by (simp add: step)
      show "inQueueOrWritten
            (channelFrame env (myNodeNum (myNodeInfo s))
               (randomSource s (randomDraws s + (j - i)) mod 1000000000) j)
            (stateOf (getAllChannels_loop env i s))"
        if "i \<le> j" "j \<le> maxChannels (myNodeInfo s)"
          "length (channelFrame env (myNodeNum (myNodeInfo s))
                    (randomSource s (randomDraws s + (j - i)) mod 1000000000) j) \<le> 512"
        for j
      proof (cases "j = i")
        case True
        with that(3) have "inQueueOrWritten (channelFrame env (myNodeNum (myNodeInfo s)) (randId s) i) ?s'"
          using getChannel_hands_over [of env s i "Some Resolve"] by (simp add: randId_def)
        from IH3 [OF this] True show ?thesis by (simp add: step randId_def)
      next
        case False
        with that have le: "i + 1 \<le> j" by simp
        then have eq: "randomDraws ?s' + (j - (i + 1)) = randomDraws s + (j - i)"
          by (simp add: rd)
        have "inQueueOrWritten
            (channelFrame env (myNodeNum (myNodeInfo ?s'))
               (randomSource ?s' (randomDraws ?s' + (j - (i + 1))) mod 1000000000) j)
            (stateOf (getAllChannels_loop env (i + 1) ?s'))"
          using le that(2,3) by (intro IH4) (simp_all only: mi rs eq)
        then show ?thesis by (simp only: mi rs eq step)
      qed
    qed
  qed
qed

lemma getAllChannels_eq:
  "getAllChannels env cb s =
     Inr (let s' = stateOf (getAllChannels_loop env 0
                      (s\<lparr>trace := trace s @
                           [logEntry Emitter_getAllChannels
                              [Str ''Requesting all Channels '', withOrWithout cb,
                               Str '' callback''] DEBUG None]\<rparr>))
          in case cb of Some c \<Rightarrow> callCallback c None s' | None \<Rightarrow> s')"
  by (subst getAllChannels_def, subst loop_props [THEN conjunct1])
    (simp add: andThen_def log_entry Let_def)

lemma inQueueOrWritten_callCallback:
  "inQueueOrWritten d s \<Longrightarrow> inQueueOrWritten d (callCallback c a s)"
  by (auto simp: inQueueOrWritten_def callCallback_eq)

lemma core_callCallback [simp]: "core (callCallback c a s) = core s"
  by (simp add: callCallback_eq)

lemma getAllChannels_hands_over:
  assumes "j \<le> maxChannels (myNodeInfo s)"
    and "length (channelFrame env (myNodeNum (myNodeInfo s))
                    (randomSource s (randomDraws s + j) mod 1000000000) j) \<le> 512"
  shows "inQueueOrWritten
            (channelFrame env (myNodeNum (myNodeInfo s))
               (randomSource s (randomDraws s + j) mod 1000000000) j)
            (stateOf (getAllChannels env cb s))"
proof -
  let ?s1 = "s\<lparr>trace := trace s @
                           [logEntry Emitter_getAllChannels
                              [Str ''Requesting all Channels '', withOrWithout cb,
                               Str '' callback''] DEBUG None]\<rparr>"
  have "inQueueOrWritten
            (channelFrame env (myNodeNum (myNodeInfo ?s1))
               (randomSource ?s1 (randomDraws ?s1 + (j - 0)) mod 1000000000) j)
            (stateOf (getAllChannels_loop env 0 ?s1))"
    using assms by (intro loop_props [THEN conjunct2, THEN conjunct2, THEN conjunct2, rule_format]) simp_all
  then have "inQueueOrWritten
            (channelFrame env (myNodeNum (myNodeInfo s))
               (randomSource s (randomDraws s + j) mod 1000000000) j)
            (stateOf (getAllChannels_loop env 0 ?s1))" by simp
  then show ?thesis
    by (cases cb) (simp_all add: getAllChannels_eq stateOf_def Let_def inQueueOrWritten_callCallback)
qed

lemma getAllChannels_keeps:
  assumes "inQueueOrWritten d s"
  shows "inQueueOrWritten d (stateOf (getAllChannels env cb s))"
proof -
  let ?s1 = "s\<lparr>trace := trace s @
                           [logEntry Emitter_getAllChannels
                              [Str ''Requesting all Channels '', withOrWithout cb,
                               Str '' callback''] DEBUG None]\<rparr>"
  from assms have "inQueueOrWritten d ?s1" by (rule inQueueOrWritten_trace_app)
  then have "inQueueOrWritten d (stateOf (getAllChannels_loop env 0 ?s1))"
    using loop_props [of env 0 ?s1] by blast
  then show ?thesis
    by (cases cb) (simp_all add: getAllChannels_eq stateOf_def Let_def inQueueOrWritten_callCallback)
qed

lemma core_getAllChannels: "core (stateOf (getAllChannels env cb s)) = core s"
proof -
  let ?s1 = "s\<lparr>trace := trace s @
                           [logEntry Emitter_getAllChannels
                              [Str ''Requesting all Channels '', withOrWithout cb,
                               Str '' callback''] DEBUG None]\<rparr>"
  have "core (stateOf (getAllChannels_loop env 0 ?s1)) = core ?s1"
    using loop_props [of env 0 ?s1] by blast
  then show ?thesis
    by (cases cb) (simp_all add: getAllChannels_eq stateOf_def Let_def)
qed

lemma requestedChannels_append [simp]:
  "requestedChannels (xs @ ys) = requestedChannels xs @ requestedChannels ys"
  by (simp add: requestedChannels_def map_filter_def)

lemma requestedChannels_Nil [simp]: "requestedChannels [] = []"
  by (simp add: requestedChannels_def map_filter_def)

lemma requestedChannels_Cons:
  "requestedChannels (e # t) =
     (case channelOfLog e of None \<Rightarrow> requestedChannels t | Some i \<Rightarrow> i # requestedChannels t)"
  by (simp add: requestedChannels_def map_filter_def split: option.split)

lemma channelOfLog_simps [simp]:
  "channelOfLog (logEntry Emitter_getChannel (Str a # Num i # rest) lv pk) = Some i"
  "em \<noteq> Emitter_getChannel \<Longrightarrow> channelOfLog (logEntry em msg lv pk) = None"
  "channelOfLog (writeToRadio d) = None"
  "channelOfLog (callbackCalled k arg) = None"
  "channelOfLog (onFromRadio m) = None"
  "channelOfLog (onDeviceStatus st) = None"
  by (simp_all add: channelOfLog_def logEntry_def)

lemma requestedChannels_writes [simp]: "requestedChannels (map writeToRadio fs) = []"
  by (induction fs) (simp_all add: requestedChannels_Cons)

lemma requestedChannels_sendRaw [simp]:
  "requestedChannels (trace (sendRaw env i d cb s)) = requestedChannels (trace s)"
  by (simp add: sendRaw_eq requestedChannels_Cons)

lemma requestedChannels_getChannel:
  "requestedChannels (trace (stateOf (getChannel env i cb s))) = requestedChannels (trace s) @ [i]"
  by (simp add: getChannel_eq requestedChannels_Cons)

lemma requestedChannels_loop:
  "requestedChannels (trace (stateOf (getAllChannels_loop env i s))) =
     requestedChannels (trace s) @ [i..<Suc (maxChannels (myNodeInfo s))]"
proof (induction env i s rule: getAllChannels_loop.induct)
  case (1 env i s)
  let ?s' = "stateOf (getChannel env i (Some Resolve) s)"
  show ?case
  proof (cases "i \<le> maxChannels (myNodeInfo s)")
    case False
    then show ?thesis by (simp add: loop_step [of env i s])
  next
    case True
    have mi: "myNodeInfo ?s' = myNodeInfo s"
      using core_getChannel [of env i "Some Resolve" s] core_eqD(3) by metis
    from True have up: "[i..<Suc (maxChannels (myNodeInfo s))] =
        i # [i + 1..<Suc (maxChannels (myNodeInfo s))]"
      by (simp add: upt_conv_Cons)
    from 1 [OF True getChannel_Inr] True show ?thesis
      by (simp only: loop_step [of env i s] if_True mi requestedChannels_getChannel up
            append_assoc append_Cons append_Nil)
  qed
qed

lemma requestedChannels_getAllChannels:
  "requestedChannels (trace (stateOf (getAllChannels env cb s))) =
     requestedChannels (trace s) @ [0..<Suc (maxChannels (myNodeInfo s))]"
  by (cases cb; cases "the cb")
    (simp_all add: getAllChannels_eq Let_def requestedChannels_loop callCallback_eq
       requestedChannels_Cons withOrWithout_def)

text \<open>
  C8. \<open>getChannel i\<close> hands \<open>sendRaw\<close> the frame of an admin packet whose payload is
  the encoding of \<open>getChannelRequest = i + 1\<close>, and, when that frame is within the size
  limit, the queue takes it (it waits there or is written). \<open>getAllChannels\<close> does so for
  every \<open>j\<close> from 0 to the reported maximum: the requests carry \<open>j + 1\<close>, that is 1 to
  the maximum plus 1, each with the packet id of its own random draw, while the indices the
  log names are 0 to the maximum, in order.
\<close>

theorem getChannel_requests_index_plus_one:
  "(let me = myNodeNum (myNodeInfo s);
        frame = (\<lambda>rid j. ToRadio_toBinary env
                   (ToRadio_packet
                      (createMeshPacket env me rid
                         (AdminMessage_toBinary env (Admin_getChannelRequest (j + 1)))
                         ADMIN_APP (Some me) True 0 True 0 None 0)))
    in (\<exists>s2. getChannel env i cb s = Inr (sendRaw env (randId s) (frame (randId s) i) cb s2)
             \<and> queue s2 = queue s)
       \<and> (length (frame (randId s) i) \<le> 512 \<longrightarrow>
            inQueueOrWritten (frame (randId s) i) (stateOf (getChannel env i cb s)))
       \<and> (\<forall>j. j \<le> maxChannels (myNodeInfo s) \<longrightarrow>
            length (frame (randomSource s (randomDraws s + j) mod 1000000000) j) \<le> 512 \<longrightarrow>
            inQueueOrWritten (frame (randomSource s (randomDraws s + j) mod 1000000000) j)
              (stateOf (getAllChannels env cb' s)))
       \<and> requestedChannels (trace (stateOf (getChannel env i cb s))) =
           requestedChannels (trace s) @ [i]
       \<and> requestedChannels (trace (stateOf (getAllChannels env cb' s))) =
           requestedChannels (trace s) @ [0..<Suc (maxChannels (myNodeInfo s))])"
  unfolding Let_def channelFrame_def [symmetric]
proof (intro conjI allI impI)
  show "requestedChannels (trace (stateOf (getChannel env i cb s))) =
      requestedChannels (trace s) @ [i]"
    by (rule requestedChannels_getChannel)
  show "requestedChannels (trace (stateOf (getAllChannels env cb' s))) =
      requestedChannels (trace s) @ [0..<Suc (maxChannels (myNodeInfo s))]"
    by (rule requestedChannels_getAllChannels)
  show "\<exists>s2. getChannel env i cb s =
      Inr (sendRaw env (randId s) (channelFrame env (myNodeNum (myNodeInfo s)) (randId s) i) cb s2)
    \<and> queue s2 = queue s"
    by (subst getChannel_eq, rule exI, rule conjI, rule refl) simp
  show "inQueueOrWritten (channelFrame env (myNodeNum (myNodeInfo s)) (randId s) i)
      (stateOf (getChannel env i cb s))"
    if "length (channelFrame env (myNodeNum (myNodeInfo s)) (randId s) i) \<le> 512"
    using that by (rule getChannel_hands_over)
  show "inQueueOrWritten
      (channelFrame env (myNodeNum (myNodeInfo s))
         (randomSource s (randomDraws s + j) mod 1000000000) j)
      (stateOf (getAllChannels env cb' s))"
    if "j \<le> maxChannels (myNodeInfo s)"
      "length (channelFrame env (myNodeNum (myNodeInfo s))
                 (randomSource s (randomDraws s + j) mod 1000000000) j) \<le> 512" for j
    using that by (rule getAllChannels_hands_over)
qed

lemma env0_channelFrame: "channelFrame env0 me rid j = [1, 4, of_nat (j + 1)]"
  by (simp add: channelFrame_def env0_def createMeshPacket_def)

theorem getChannel_requests_index_plus_one_witness:
  "maxChannels (myNodeInfo sessionNode) = 2
   \<and> inQueueOrWritten [1, 4, 1] (stateOf (getChannel env0 0 None sessionNode))
   \<and> inQueueOrWritten [1, 4, 1] (stateOf (getAllChannels env0 None sessionNode))
   \<and> inQueueOrWritten [1, 4, 2] (stateOf (getAllChannels env0 None sessionNode))
   \<and> inQueueOrWritten [1, 4, 3] (stateOf (getAllChannels env0 None sessionNode))
   \<and> requestedChannels (trace (stateOf (getAllChannels env0 None sessionNode))) = [0, 1, 2]"
proof -
  have m: "maxChannels (myNodeInfo sessionNode) = 2"
    by (simp add: sessionNode_def)
  note t = getChannel_requests_index_plus_one [of sessionNode env0 0 None None,
      unfolded Let_def channelFrame_def [symmetric] env0_channelFrame]
  from t have a: "inQueueOrWritten [1, 4, 1] (stateOf (getChannel env0 0 None sessionNode))"
    by simp
  from t have all: "j \<le> 2 \<Longrightarrow>
      inQueueOrWritten [1, 4, of_nat (j + 1)] (stateOf (getAllChannels env0 None sessionNode))" for j
    by (simp add: m)
  from t have rq: "requestedChannels (trace (stateOf (getAllChannels env0 None sessionNode))) =
      requestedChannels (trace sessionNode) @ [0..<Suc 2]"
    by (simp add: m)
  have "[0..<Suc 2] = [0, 1, 2::nat]" by (simp add: upt_rec)
  with rq have rq': "requestedChannels (trace (stateOf (getAllChannels env0 None sessionNode))) =
      [0, 1, 2]"
    by (simp add: sessionNode_def session0_eq)
  from all [of 0] all [of 1] all [of 2] a m rq' show ?thesis by simp
qed

section \<open>The handshake, step by step\<close>

text \<open>
  The follow-up of a config-complete message does not read the trace: run on a session
  with more events in front, it returns the same session with those events in front.
\<close>

lemma emit_onFromRadio: "emit (onFromRadio m) s = s\<lparr>trace := trace s @ [onFromRadio m]\<rparr>"
  by (simp add: emit_def Let_def)

lemma getAllChannels_Inr: "getAllChannels env cb s = Inr (stateOf (getAllChannels env cb s))"
  by (simp add: getAllChannels_eq stateOf_def)

lemma andThen_getAllChannels:
  "andThen (getAllChannels env cb s) f = f (stateOf (getAllChannels env cb s))"
  by (subst getAllChannels_Inr) (simp add: andThen_def)

lemma completeMsg_fields [simp]:
  "fromRadio_payloadVariant (completeMsg k cid) = FromRadio_configCompleteId cid"
  "fromRadio_id (completeMsg k cid) = k"
  by (simp_all add: completeMsg_def)

lemma handleFromRadio_configComplete:
  "handleFromRadio env (completeMsg k cid) s =
     Inr (followUp env
            (s\<lparr>trace := trace s @ [onFromRadio (completeMsg k cid)]
                 @ (if cid \<noteq> configId s then [invalidConfigId (configId s) cid] else [])\<rparr>))"
  by (simp add: handleFromRadio_def emit_onFromRadio log_entry
        Let_def followUp_def invalidConfigId_def andThen_getAllChannels)

lemma deviceStatus_updateDeviceStatus:
  "subscribed s \<Longrightarrow> deviceStatus (updateDeviceStatus st s) = st"
  by (simp add: updateDeviceStatus_def deviceStatus_emit_status)

lemma trace_updateDeviceStatus:
  "trace (updateDeviceStatus st s) =
     trace s @ (if st \<noteq> deviceStatus s then [onDeviceStatus st] else [])"
  by (simp add: updateDeviceStatus_def trace_emit)

lemma withPrefix_fields [simp]:
  "queue (withPrefix t s) = queue s" "trace (withPrefix t s) = t @ trace s"
  "randomDraws (withPrefix t s) = randomDraws s" "myNodeInfo (withPrefix t s) = myNodeInfo s"
  "deviceStatus (withPrefix t s) = deviceStatus s" "subscribed (withPrefix t s) = subscribed s"
  "randId (withPrefix t s) = randId s" "isConfigured (withPrefix t s) = isConfigured s"
  by (simp_all add: withPrefix_def)

lemma sendRaw_prefix:
  "sendRaw env i d cb (withPrefix t s) = withPrefix t (sendRaw env i d cb s)"
  by (simp add: sendRaw_eq) (simp add: withPrefix_def)

lemma getChannel_prefix:
  "stateOf (getChannel env i cb (withPrefix t s)) = withPrefix t (stateOf (getChannel env i cb s))"
proof -
  have "(withPrefix t s)\<lparr>trace := trace (withPrefix t s) @ evs, randomDraws := n\<rparr>
      = withPrefix t (s\<lparr>trace := trace s @ evs, randomDraws := n\<rparr>)" for evs n
    by (simp add: withPrefix_def)
  then show ?thesis
    by (simp only: getChannel_eq stateOf_simps withPrefix_fields sendRaw_prefix)
qed

lemma callCallback_prefix:
  "callCallback c a (withPrefix t s) = withPrefix t (callCallback c a s)"
  by (simp add: callCallback_eq withPrefix_def)

lemma updateDeviceStatus_prefix:
  "updateDeviceStatus st (withPrefix t s) = withPrefix t (updateDeviceStatus st s)"
  by (simp add: updateDeviceStatus_def emit_def Let_def) (simp add: withPrefix_def)

lemma loop_prefix:
  "stateOf (getAllChannels_loop env i (withPrefix t s)) =
     withPrefix t (stateOf (getAllChannels_loop env i s))"
proof (induction env i s rule: getAllChannels_loop.induct)
  case (1 env i s)
  show ?case
  proof (cases "i \<le> maxChannels (myNodeInfo s)")
    case False
    then show ?thesis
      by (simp add: loop_step [of env i s] loop_step [of env i "withPrefix t s"])
  next
    case True
    from 1 [OF True getChannel_Inr] True show ?thesis
      by (simp add: loop_step [of env i s] loop_step [of env i "withPrefix t s"]
            getChannel_prefix)
  qed
qed

lemma getAllChannels_prefix:
  "stateOf (getAllChannels env cb (withPrefix t s)) =
     withPrefix t (stateOf (getAllChannels env cb s))"
proof -
  have "(withPrefix t s)\<lparr>trace := trace (withPrefix t s) @ evs\<rparr>
      = withPrefix t (s\<lparr>trace := trace s @ evs\<rparr>)" for evs
    by (simp add: withPrefix_def)
  then show ?thesis
    by (cases cb) (simp_all add: getAllChannels_eq Let_def loop_prefix
        callCallback_prefix del: withPrefix_fields)
qed

lemma followUp_prefix: "followUp env (withPrefix t s) = withPrefix t (followUp env s)"
  by (simp add: followUp_def sendRaw_prefix getAllChannels_prefix updateDeviceStatus_prefix)

lemma core_followUp_arg:
  "core (stateOf (getAllChannels env cb (sendRaw env i d c s))) = core s"
  by (simp add: core_getAllChannels)

lemma followUp_configured:
  assumes "subscribed s"
  shows "deviceStatus (followUp env s) = DEVICE_CONFIGURED"
proof -
  let ?s3 = "stateOf (getAllChannels env (Some Resolve)
          (sendRaw env 0 (ToRadio_toBinary env (ToRadio_peerInfo 1 False)) None s))"
  have "core ?s3 = core s" by (rule core_followUp_arg)
  then have sub: "subscribed ?s3" using assms core_eqD(5) by metis
  then show "deviceStatus (followUp env s) = DEVICE_CONFIGURED"
    by (simp add: followUp_def deviceStatus_updateDeviceStatus)
qed

lemma followUp_isConfigured:
  assumes "subscribed s" "deviceStatus s \<noteq> DEVICE_CONFIGURED"
  shows "isConfigured (followUp env s)"
proof -
  let ?s3 = "stateOf (getAllChannels env (Some Resolve)
          (sendRaw env 0 (ToRadio_toBinary env (ToRadio_peerInfo 1 False)) None s))"
  have c: "core ?s3 = core s" by (rule core_followUp_arg)
  then have "subscribed ?s3" "deviceStatus ?s3 \<noteq> DEVICE_CONFIGURED"
    using assms core_eqD(1,5) by metis+
  then show ?thesis
    by (simp add: followUp_def updateDeviceStatus_def emit_def Let_def)
qed

lemma inQueueOrWritten_updateDeviceStatus:
  "inQueueOrWritten d s \<Longrightarrow> inQueueOrWritten d (updateDeviceStatus st s)"
  by (auto simp: inQueueOrWritten_def updateDeviceStatus_def emit_def Let_def)

text \<open>
  C2. On a config-complete message the handler first passes the peer announcement to
  \<open>sendRaw\<close> (session \<open>s2\<close>), then runs \<open>getAllChannels\<close> (session \<open>s3\<close>), and only then
  updates the status: up to \<open>s3\<close> the status is the one the handler found, the status
  event, if any, is the last event of the trace, and in \<open>s3\<close> the channel indices
  requested are exactly 0 to the reported maximum, in order, and the queue has already
  taken the peer frame and the frame of each of these requests (for frames within the size
  limit). With the status subscription attached the session
  ends in \<open>DEVICE_CONFIGURED\<close>.
\<close>

theorem configComplete_sends_before_configured:
  "\<exists>s1 s2 s3.
      core s1 = core s \<and> queue s1 = queue s \<and> randomDraws s1 = randomDraws s
    \<and> s2 = sendRaw env 0 (ToRadio_toBinary env (ToRadio_peerInfo 1 False)) None s1
    \<and> getAllChannels env (Some Resolve) s2 = Inr s3
    \<and> handleFromRadio env (completeMsg k cid) s = Inr (updateDeviceStatus DEVICE_CONFIGURED s3)
    \<and> deviceStatus s3 = deviceStatus s
    \<and> requestedChannels (trace s3) =
        requestedChannels (trace s) @ [0..<Suc (maxChannels (myNodeInfo s))]
    \<and> trace (updateDeviceStatus DEVICE_CONFIGURED s3) =
        trace s3 @ (if deviceStatus s \<noteq> DEVICE_CONFIGURED
                    then [onDeviceStatus DEVICE_CONFIGURED] else [])
    \<and> (length (ToRadio_toBinary env (ToRadio_peerInfo 1 False)) \<le> 512 \<longrightarrow>
          inQueueOrWritten (ToRadio_toBinary env (ToRadio_peerInfo 1 False)) s2
          \<and> inQueueOrWritten (ToRadio_toBinary env (ToRadio_peerInfo 1 False)) s3)
    \<and> (\<forall>j. j \<le> maxChannels (myNodeInfo s) \<longrightarrow>
          length (channelFrame env (myNodeNum (myNodeInfo s))
                    (randomSource s (randomDraws s + j) mod 1000000000) j) \<le> 512 \<longrightarrow>
          inQueueOrWritten
            (channelFrame env (myNodeNum (myNodeInfo s))
               (randomSource s (randomDraws s + j) mod 1000000000) j) s3)
    \<and> (subscribed s \<longrightarrow>
          deviceStatus (updateDeviceStatus DEVICE_CONFIGURED s3) = DEVICE_CONFIGURED)"
proof -
  define s1 where "s1 = s\<lparr>trace := trace s @ [onFromRadio (completeMsg k cid)]
                 @ (if cid \<noteq> configId s then [invalidConfigId (configId s) cid] else [])\<rparr>"
  define s2 where "s2 = sendRaw env 0 (ToRadio_toBinary env (ToRadio_peerInfo 1 False)) None s1"
  define s3 where "s3 = stateOf (getAllChannels env (Some Resolve) s2)"
  have c1: "core s1 = core s" and q1: "queue s1 = queue s"
    and r1: "randomDraws s1 = randomDraws s"
    by (simp_all add: s1_def)
  have c2: "core s2 = core s" by (simp add: s2_def c1)
  have r2: "randomDraws s2 = randomDraws s" by (simp add: s2_def r1)
  have c3: "core s3 = core s" by (simp add: s3_def core_getAllChannels c2)
  have g: "getAllChannels env (Some Resolve) s2 = Inr s3"
    unfolding s3_def by (rule getAllChannels_Inr)
  have run: "handleFromRadio env (completeMsg k cid) s =
      Inr (updateDeviceStatus DEVICE_CONFIGURED s3)"
    by (simp add: handleFromRadio_configComplete followUp_def s1_def s2_def s3_def)
  have d3: "deviceStatus s3 = deviceStatus s" and sub3: "subscribed s3 = subscribed s"
    using c3 core_eqD(1,5) by metis+
  have mi2: "myNodeInfo s2 = myNodeInfo s" and rs2: "randomSource s2 = randomSource s"
    using c2 core_eqD(3) core_randomSource by metis+
  have tr: "trace (updateDeviceStatus DEVICE_CONFIGURED s3) =
        trace s3 @ (if deviceStatus s \<noteq> DEVICE_CONFIGURED
                    then [onDeviceStatus DEVICE_CONFIGURED] else [])"
    by (simp add: trace_updateDeviceStatus d3)
  have peer: "inQueueOrWritten (ToRadio_toBinary env (ToRadio_peerInfo 1 False)) s2
      \<and> inQueueOrWritten (ToRadio_toBinary env (ToRadio_peerInfo 1 False)) s3"
    if "length (ToRadio_toBinary env (ToRadio_peerInfo 1 False)) \<le> 512"
    using sendRaw_hands_over [OF that, of env 0 None s1]
    unfolding s2_def [symmetric] s3_def by (simp add: getAllChannels_keeps)
  have chans: "inQueueOrWritten
            (channelFrame env (myNodeNum (myNodeInfo s))
               (randomSource s (randomDraws s + j) mod 1000000000) j) s3"
    if "j \<le> maxChannels (myNodeInfo s)"
      "length (channelFrame env (myNodeNum (myNodeInfo s))
                    (randomSource s (randomDraws s + j) mod 1000000000) j) \<le> 512" for j
    using getAllChannels_hands_over [of j s2 env "Some Resolve"] that
    by (simp add: mi2 rs2 r2 s3_def)
  have fin: "deviceStatus (updateDeviceStatus DEVICE_CONFIGURED s3) = DEVICE_CONFIGURED"
    if "subscribed s"
    using that by (simp add: deviceStatus_updateDeviceStatus sub3)
  have rq: "requestedChannels (trace s3) =
        requestedChannels (trace s) @ [0..<Suc (maxChannels (myNodeInfo s))]"
  proof -
    have "requestedChannels (trace s3) =
        requestedChannels (trace s2) @ [0..<Suc (maxChannels (myNodeInfo s2))]"
      unfolding s3_def by (rule requestedChannels_getAllChannels)
    moreover have "requestedChannels (trace s2) = requestedChannels (trace s1)"
      unfolding s2_def by (rule requestedChannels_sendRaw)
    moreover have "requestedChannels (trace s1) = requestedChannels (trace s)"
      by (simp add: s1_def requestedChannels_Cons invalidConfigId_def)
    ultimately show ?thesis by (simp only: mi2)
  qed
  from c1 q1 r1 s2_def g run d3 rq tr peer chans fin show ?thesis
    by blast
qed

theorem configComplete_sends_before_configured_witness:
  "subscribed sessionNode
   \<and> length (ToRadio_toBinary env0 (ToRadio_peerInfo 1 False)) \<le> 512
   \<and> deviceStatus (stateOf (handleFromRadio env0 (completeMsg 0 42) sessionNode)) = DEVICE_CONFIGURED
   \<and> last (trace (stateOf (handleFromRadio env0 (completeMsg 0 42) sessionNode)))
       = onDeviceStatus DEVICE_CONFIGURED
   \<and> inQueueOrWritten [3] (stateOf (handleFromRadio env0 (completeMsg 0 42) sessionNode))
   \<and> inQueueOrWritten [1, 4, 1] (stateOf (handleFromRadio env0 (completeMsg 0 42) sessionNode))
   \<and> inQueueOrWritten [1, 4, 3] (stateOf (handleFromRadio env0 (completeMsg 0 42) sessionNode))"
proof -
  have sub: "subscribed sessionNode" and st: "deviceStatus sessionNode = DEVICE_DISCONNECTED"
    and m: "maxChannels (myNodeInfo sessionNode) = 2"
    by (simp_all add: sessionNode_def session0_eq)
  have p: "ToRadio_toBinary env0 (ToRadio_peerInfo n b) = [3]" for n b
    by (simp add: env0_def)
  from configComplete_sends_before_configured [of sessionNode env0 0 42]
  obtain s3 where
    run: "handleFromRadio env0 (completeMsg 0 42) sessionNode =
        Inr (updateDeviceStatus DEVICE_CONFIGURED s3)"
    and tr: "trace (updateDeviceStatus DEVICE_CONFIGURED s3) =
        trace s3 @ (if deviceStatus sessionNode \<noteq> DEVICE_CONFIGURED
                    then [onDeviceStatus DEVICE_CONFIGURED] else [])"
    and peer: "length (ToRadio_toBinary env0 (ToRadio_peerInfo 1 False)) \<le> 512 \<longrightarrow>
          inQueueOrWritten (ToRadio_toBinary env0 (ToRadio_peerInfo 1 False)) s3"
    and chans: "\<forall>j. j \<le> maxChannels (myNodeInfo sessionNode) \<longrightarrow>
          length (channelFrame env0 (myNodeNum (myNodeInfo sessionNode))
                    (randomSource sessionNode (randomDraws sessionNode + j) mod 1000000000) j) \<le> 512 \<longrightarrow>
          inQueueOrWritten
            (channelFrame env0 (myNodeNum (myNodeInfo sessionNode))
               (randomSource sessionNode (randomDraws sessionNode + j) mod 1000000000) j) s3"
    and fin: "subscribed sessionNode \<longrightarrow>
          deviceStatus (updateDeviceStatus DEVICE_CONFIGURED s3) = DEVICE_CONFIGURED"
    by (elim exE conjE) (rule that, blast+)
  have len: "length (ToRadio_toBinary env0 (ToRadio_peerInfo 1 False)) \<le> 512"
    by (simp add: p)
  with peer have a: "inQueueOrWritten [3] s3" by (simp add: p)
  from chans [rule_format, of 0] have b: "inQueueOrWritten [1, 4, 1] s3"
    by (simp add: m env0_channelFrame)
  from chans [rule_format, of 2] have c: "inQueueOrWritten [1, 4, 3] s3"
    by (simp add: m env0_channelFrame)
  from fin sub have d: "deviceStatus (updateDeviceStatus DEVICE_CONFIGURED s3) = DEVICE_CONFIGURED"
    by simp
  from tr have e: "last (trace (updateDeviceStatus DEVICE_CONFIGURED s3))
      = onDeviceStatus DEVICE_CONFIGURED"
    by (simp add: st)
  from a b c d e sub len show ?thesis
    by (simp add: run inQueueOrWritten_updateDeviceStatus)
qed

lemma followUp_issues:
  "followUp env s1 = updateDeviceStatus DEVICE_CONFIGURED
           (stateOf (getAllChannels env (Some Resolve)
              (sendRaw env 0 (ToRadio_toBinary env (ToRadio_peerInfo 1 False)) None s1)))"
  "core (stateOf (getAllChannels env (Some Resolve)
              (sendRaw env 0 (ToRadio_toBinary env (ToRadio_peerInfo 1 False)) None s1))) = core s1"
  "requestedChannels (trace (stateOf (getAllChannels env (Some Resolve)
              (sendRaw env 0 (ToRadio_toBinary env (ToRadio_peerInfo 1 False)) None s1)))) =
           requestedChannels (trace s1) @ [0..<Suc (maxChannels (myNodeInfo s1))]"
  "length (ToRadio_toBinary env (ToRadio_peerInfo 1 False)) \<le> 512 \<Longrightarrow>
           inQueueOrWritten (ToRadio_toBinary env (ToRadio_peerInfo 1 False)) (stateOf (getAllChannels env (Some Resolve)
              (sendRaw env 0 (ToRadio_toBinary env (ToRadio_peerInfo 1 False)) None s1)))"
  "j \<le> maxChannels (myNodeInfo s1) \<Longrightarrow>
           length (channelFrame env (myNodeNum (myNodeInfo s1))
                     (randomSource s1 (randomDraws s1 + j) mod 1000000000) j) \<le> 512 \<Longrightarrow>
           inQueueOrWritten
             (channelFrame env (myNodeNum (myNodeInfo s1))
                (randomSource s1 (randomDraws s1 + j) mod 1000000000) j) (stateOf (getAllChannels env (Some Resolve)
              (sendRaw env 0 (ToRadio_toBinary env (ToRadio_peerInfo 1 False)) None s1)))"
proof -
  define s2 where "s2 = sendRaw env 0 (ToRadio_toBinary env (ToRadio_peerInfo 1 False)) None s1"
  define s3 where "s3 = stateOf (getAllChannels env (Some Resolve) s2)"
  have s3: "(stateOf (getAllChannels env (Some Resolve)
              (sendRaw env 0 (ToRadio_toBinary env (ToRadio_peerInfo 1 False)) None s1))) = s3"
    by (simp only: s3_def s2_def)
  have c2: "core s2 = core s1" by (simp add: s2_def)
  have r2: "randomDraws s2 = randomDraws s1" by (simp add: s2_def)
  have mi2: "myNodeInfo s2 = myNodeInfo s1" and rs2: "randomSource s2 = randomSource s1"
    using c2 core_eqD(3) core_randomSource by metis+
  show "followUp env s1 = updateDeviceStatus DEVICE_CONFIGURED
           (stateOf (getAllChannels env (Some Resolve)
              (sendRaw env 0 (ToRadio_toBinary env (ToRadio_peerInfo 1 False)) None s1)))"
    by (simp only: followUp_def)
  show "core (stateOf (getAllChannels env (Some Resolve)
              (sendRaw env 0 (ToRadio_toBinary env (ToRadio_peerInfo 1 False)) None s1))) = core s1"
    unfolding s3 by (simp add: s3_def core_getAllChannels c2)
  have "requestedChannels (trace s3) =
        requestedChannels (trace s2) @ [0..<Suc (maxChannels (myNodeInfo s2))]"
    unfolding s3_def by (rule requestedChannels_getAllChannels)
  moreover have "requestedChannels (trace s2) = requestedChannels (trace s1)"
    unfolding s2_def by (rule requestedChannels_sendRaw)
  ultimately show "requestedChannels (trace (stateOf (getAllChannels env (Some Resolve)
              (sendRaw env 0 (ToRadio_toBinary env (ToRadio_peerInfo 1 False)) None s1)))) =
           requestedChannels (trace s1) @ [0..<Suc (maxChannels (myNodeInfo s1))]"
    unfolding s3 by (simp only: mi2)
  show "inQueueOrWritten (ToRadio_toBinary env (ToRadio_peerInfo 1 False)) (stateOf (getAllChannels env (Some Resolve)
              (sendRaw env 0 (ToRadio_toBinary env (ToRadio_peerInfo 1 False)) None s1)))"
    if "length (ToRadio_toBinary env (ToRadio_peerInfo 1 False)) \<le> 512"
    using sendRaw_hands_over [OF that, of env 0 None s1]
    unfolding s3 s2_def [symmetric] s3_def by (rule getAllChannels_keeps)
  show "inQueueOrWritten
             (channelFrame env (myNodeNum (myNodeInfo s1))
                (randomSource s1 (randomDraws s1 + j) mod 1000000000) j) (stateOf (getAllChannels env (Some Resolve)
              (sendRaw env 0 (ToRadio_toBinary env (ToRadio_peerInfo 1 False)) None s1)))"
    if "j \<le> maxChannels (myNodeInfo s1)"
      "length (channelFrame env (myNodeNum (myNodeInfo s1))
                     (randomSource s1 (randomDraws s1 + j) mod 1000000000) j) \<le> 512"
    unfolding s3 using getAllChannels_hands_over [of j s2 env "Some Resolve"] that
    by (simp add: mi2 rs2 r2 s3_def)
qed

text \<open>
  C5. A config-complete message whose id is not the session's config id: the handler logs
  one error entry right after the inbound event, and the handshake still completes. It
  passes the peer announcement to \<open>sendRaw\<close>, requests the channel indices 0 to the
  reported maximum in order (session \<open>s3\<close>, where the queue has taken those frames when
  they are within the size limit), and then updates the status: the status event, if any,
  is the last event, and with the status subscription attached the session ends in
  \<open>DEVICE_CONFIGURED\<close>. Apart from the error entry the run is the run for the matching id:
  the same resulting session \<open>c\<close> and the same events \<open>rest\<close> after the check.
\<close>

theorem config_id_mismatch_not_fatal:
  assumes "cid \<noteq> configId s"
  shows "\<exists>c rest s3.
      handleFromRadio env (completeMsg k cid) s =
        Inr (c\<lparr>trace := trace s @ [onFromRadio (completeMsg k cid),
                                    invalidConfigId (configId s) cid] @ rest\<rparr>)
    \<and> handleFromRadio env (completeMsg k (configId s)) s =
        Inr (c\<lparr>trace := trace s @ [onFromRadio (completeMsg k (configId s))] @ rest\<rparr>)
    \<and> s3 = stateOf (getAllChannels env (Some Resolve)
               (sendRaw env 0 (ToRadio_toBinary env (ToRadio_peerInfo 1 False)) None
                  (s\<lparr>trace := trace s @ [onFromRadio (completeMsg k cid),
                                          invalidConfigId (configId s) cid]\<rparr>)))
    \<and> handleFromRadio env (completeMsg k cid) s = Inr (updateDeviceStatus DEVICE_CONFIGURED s3)
    \<and> deviceStatus s3 = deviceStatus s
    \<and> requestedChannels (trace s3) =
        requestedChannels (trace s) @ [0..<Suc (maxChannels (myNodeInfo s))]
    \<and> (length (ToRadio_toBinary env (ToRadio_peerInfo 1 False)) \<le> 512 \<longrightarrow>
          inQueueOrWritten (ToRadio_toBinary env (ToRadio_peerInfo 1 False)) s3)
    \<and> (\<forall>j. j \<le> maxChannels (myNodeInfo s) \<longrightarrow>
          length (channelFrame env (myNodeNum (myNodeInfo s))
                    (randomSource s (randomDraws s + j) mod 1000000000) j) \<le> 512 \<longrightarrow>
          inQueueOrWritten
            (channelFrame env (myNodeNum (myNodeInfo s))
               (randomSource s (randomDraws s + j) mod 1000000000) j) s3)
    \<and> trace (stateOf (handleFromRadio env (completeMsg k cid) s)) =
        trace s3 @ (if deviceStatus s \<noteq> DEVICE_CONFIGURED
                    then [onDeviceStatus DEVICE_CONFIGURED] else [])
    \<and> (subscribed s \<longrightarrow>
          deviceStatus (stateOf (handleFromRadio env (completeMsg k cid) s)) = DEVICE_CONFIGURED)"
proof -
  define c where "c = followUp env (s\<lparr>trace := []\<rparr>)"
  define s1 where "s1 = s\<lparr>trace := trace s @ [onFromRadio (completeMsg k cid),
                                          invalidConfigId (configId s) cid]\<rparr>"
  define s3 where "s3 = stateOf (getAllChannels env (Some Resolve)
               (sendRaw env 0 (ToRadio_toBinary env (ToRadio_peerInfo 1 False)) None s1))"
  have pre: "s\<lparr>trace := t\<rparr> = withPrefix t (s\<lparr>trace := []\<rparr>)" for t
    by (simp add: withPrefix_def)
  have fu: "followUp env (s\<lparr>trace := t\<rparr>) = c\<lparr>trace := t @ trace c\<rparr>" for t
    by (subst pre, subst followUp_prefix) (simp add: withPrefix_def c_def)
  have a: "handleFromRadio env (completeMsg k cid) s =
        Inr (c\<lparr>trace := trace s @ [onFromRadio (completeMsg k cid),
                                    invalidConfigId (configId s) cid] @ trace c\<rparr>)"
    using assms by (simp add: handleFromRadio_configComplete fu)
  have b: "handleFromRadio env (completeMsg k (configId s)) s =
        Inr (c\<lparr>trace := trace s @ [onFromRadio (completeMsg k (configId s))] @ trace c\<rparr>)"
    by (simp add: handleFromRadio_configComplete fu)
  have f1: "core s1 = core s" "randomDraws s1 = randomDraws s"
    "requestedChannels (trace s1) = requestedChannels (trace s)"
    by (simp_all add: s1_def requestedChannels_Cons invalidConfigId_def)
  have mi1: "myNodeInfo s1 = myNodeInfo s" and rs1: "randomSource s1 = randomSource s"
    using f1(1) core_eqD(3) core_randomSource by metis+
  note fi = followUp_issues [where env = env and ?s1.0 = s1, folded s3_def]
  have run: "handleFromRadio env (completeMsg k cid) s =
      Inr (updateDeviceStatus DEVICE_CONFIGURED s3)"
    using assms by (simp add: handleFromRadio_configComplete s1_def [symmetric] fi(1))
  have c3: "core s3 = core s" using fi(2) f1(1) by simp
  have d3: "deviceStatus s3 = deviceStatus s" and sub3: "subscribed s3 = subscribed s"
    using c3 core_eqD(1,5) by metis+
  have rq: "requestedChannels (trace s3) =
        requestedChannels (trace s) @ [0..<Suc (maxChannels (myNodeInfo s))]"
    using fi(3) by (simp only: f1(3) mi1)
  have peer: "inQueueOrWritten (ToRadio_toBinary env (ToRadio_peerInfo 1 False)) s3"
    if "length (ToRadio_toBinary env (ToRadio_peerInfo 1 False)) \<le> 512"
    using that by (rule fi(4))
  have chans: "inQueueOrWritten
            (channelFrame env (myNodeNum (myNodeInfo s))
               (randomSource s (randomDraws s + j) mod 1000000000) j) s3"
    if "j \<le> maxChannels (myNodeInfo s)"
      "length (channelFrame env (myNodeNum (myNodeInfo s))
                    (randomSource s (randomDraws s + j) mod 1000000000) j) \<le> 512" for j
    using fi(5) [where j = j] that by (simp only: mi1 rs1 f1(2))
  have tr: "trace (stateOf (handleFromRadio env (completeMsg k cid) s)) =
        trace s3 @ (if deviceStatus s \<noteq> DEVICE_CONFIGURED
                    then [onDeviceStatus DEVICE_CONFIGURED] else [])"
    by (simp add: run trace_updateDeviceStatus d3)
  have fin: "deviceStatus (stateOf (handleFromRadio env (completeMsg k cid) s)) = DEVICE_CONFIGURED"
    if "subscribed s"
    using that by (simp add: run deviceStatus_updateDeviceStatus sub3)
  have s3': "s3 = stateOf (getAllChannels env (Some Resolve)
               (sendRaw env 0 (ToRadio_toBinary env (ToRadio_peerInfo 1 False)) None
                  (s\<lparr>trace := trace s @ [onFromRadio (completeMsg k cid),
                                          invalidConfigId (configId s) cid]\<rparr>)))"
    by (simp only: s3_def s1_def)
  from a b s3' run d3 rq peer chans tr fin show ?thesis by blast
qed

theorem config_id_mismatch_not_fatal_witness:
  "7 \<noteq> configId sessionNode \<and> subscribed sessionNode
   \<and> invalidConfigId 42 7 \<in> set (trace (stateOf (handleFromRadio env0 (completeMsg 0 7) sessionNode)))
   \<and> deviceStatus (stateOf (handleFromRadio env0 (completeMsg 0 7) sessionNode)) = DEVICE_CONFIGURED
   \<and> last (trace (stateOf (handleFromRadio env0 (completeMsg 0 7) sessionNode)))
       = onDeviceStatus DEVICE_CONFIGURED
   \<and> requestedChannels (trace (stateOf (handleFromRadio env0 (completeMsg 0 7) sessionNode)))
       = [0, 1, 2]
   \<and> inQueueOrWritten [3] (stateOf (handleFromRadio env0 (completeMsg 0 7) sessionNode))
   \<and> inQueueOrWritten [1, 4, 3] (stateOf (handleFromRadio env0 (completeMsg 0 7) sessionNode))
   \<and> deviceStatus (stateOf (handleFromRadio env0 (completeMsg 0 7) sessionNode)) =
       deviceStatus (stateOf (handleFromRadio env0 (completeMsg 0 42) sessionNode))
   \<and> queue (stateOf (handleFromRadio env0 (completeMsg 0 7) sessionNode)) =
       queue (stateOf (handleFromRadio env0 (completeMsg 0 42) sessionNode))"
proof -
  let ?r = "stateOf (handleFromRadio env0 (completeMsg 0 7) sessionNode)"
  have cid: "configId sessionNode = 42" and sub: "subscribed sessionNode"
    and st: "deviceStatus sessionNode = DEVICE_DISCONNECTED"
    and m: "maxChannels (myNodeInfo sessionNode) = 2"
    and t0: "trace sessionNode = []"
    by (simp_all add: sessionNode_def session0_eq)
  have ne: "7 \<noteq> configId sessionNode" by (simp add: cid)
  have p: "ToRadio_toBinary env0 (ToRadio_peerInfo n b) = [3]" for n b
    by (simp add: env0_def)
  from config_id_mismatch_not_fatal [OF ne, of env0 0]
  obtain c rest s3 where
    a: "handleFromRadio env0 (completeMsg 0 7) sessionNode =
        Inr (c\<lparr>trace := trace sessionNode @ [onFromRadio (completeMsg 0 7),
                                    invalidConfigId (configId sessionNode) 7] @ rest\<rparr>)"
    and b: "handleFromRadio env0 (completeMsg 0 (configId sessionNode)) sessionNode =
        Inr (c\<lparr>trace := trace sessionNode @ [onFromRadio (completeMsg 0 (configId sessionNode))] @ rest\<rparr>)"
    and run: "handleFromRadio env0 (completeMsg 0 7) sessionNode =
        Inr (updateDeviceStatus DEVICE_CONFIGURED s3)"
    and rq: "requestedChannels (trace s3) =
        requestedChannels (trace sessionNode) @ [0..<Suc (maxChannels (myNodeInfo sessionNode))]"
    and peer: "length (ToRadio_toBinary env0 (ToRadio_peerInfo 1 False)) \<le> 512 \<longrightarrow>
          inQueueOrWritten (ToRadio_toBinary env0 (ToRadio_peerInfo 1 False)) s3"
    and chans: "\<forall>j. j \<le> maxChannels (myNodeInfo sessionNode) \<longrightarrow>
          length (channelFrame env0 (myNodeNum (myNodeInfo sessionNode))
                    (randomSource sessionNode (randomDraws sessionNode + j) mod 1000000000) j) \<le> 512 \<longrightarrow>
          inQueueOrWritten
            (channelFrame env0 (myNodeNum (myNodeInfo sessionNode))
               (randomSource sessionNode (randomDraws sessionNode + j) mod 1000000000) j) s3"
    and tr: "trace ?r =
        trace s3 @ (if deviceStatus sessionNode \<noteq> DEVICE_CONFIGURED
                    then [onDeviceStatus DEVICE_CONFIGURED] else [])"
    and fin: "subscribed sessionNode \<longrightarrow> deviceStatus ?r = DEVICE_CONFIGURED"
    by (elim exE conjE) (rule that, blast+)
  have e1: "invalidConfigId 42 7 \<in> set (trace ?r)" by (simp add: a cid)
  from fin sub have e2: "deviceStatus ?r = DEVICE_CONFIGURED" by simp
  from tr have e3: "last (trace ?r) = onDeviceStatus DEVICE_CONFIGURED" by (simp add: st)
  from rq have "requestedChannels (trace s3) = [0, 1, 2]" by (simp add: m t0 upt_rec)
  with tr have e4: "requestedChannels (trace ?r) = [0, 1, 2]"
    by (simp add: st requestedChannels_Cons)
  from peer have "inQueueOrWritten [3] s3" by (simp add: p)
  then have e5: "inQueueOrWritten [3] ?r"
    by (simp add: run inQueueOrWritten_updateDeviceStatus)
  from chans [rule_format, of 2] have "inQueueOrWritten [1, 4, 3] s3"
    by (simp add: m env0_channelFrame)
  then have e6: "inQueueOrWritten [1, 4, 3] ?r"
    by (simp add: run inQueueOrWritten_updateDeviceStatus)
  have e7: "deviceStatus ?r =
       deviceStatus (stateOf (handleFromRadio env0 (completeMsg 0 42) sessionNode))"
    and e8: "queue ?r = queue (stateOf (handleFromRadio env0 (completeMsg 0 42) sessionNode))"
    using b by (simp_all add: a cid)
  from ne sub e1 e2 e3 e4 e5 e6 e7 e8 show ?thesis by blast
qed

lemma configure_eq:
  "configure env s =
     (updateDeviceStatus DEVICE_CONFIGURING
        (s\<lparr>trace := trace s @
             [logEntry Emitter_configure [Str ''Reading device configuration''] DEBUG None]\<rparr>))
     \<lparr>timeouts := timeouts s @ [(0, ToRadio_toBinary env (ToRadio_wantConfigId (configId s)))]\<rparr>"
  by (simp add: configure_def log_entry Let_def updateDeviceStatus_def emit_def)

lemma subscribed_runTimeout [simp]: "subscribed (runTimeout env s) = subscribed s"
  by (simp add: runTimeout_def sendRaw_eq split: list.split)

lemma deviceStatus_runTimeout [simp]: "deviceStatus (runTimeout env s) = deviceStatus s"
  by (simp add: runTimeout_def sendRaw_eq split: list.split)

text \<open>
  C1, as the code has it. In a session that is configured and whose status subscription is
  attached, a rebooted notice runs \<open>configure\<close>: the status becomes
  \<open>DEVICE_CONFIGURING\<close> with its event, and a want-config frame is scheduled that carries
  the config id the session already had; no id is generated. Once the timer has
  fired, any config-complete message brings the status back to \<open>DEVICE_CONFIGURED\<close>.
\<close>

theorem rebooted_reconfigures_with_same_config_id:
  assumes "deviceStatus s = DEVICE_CONFIGURED" and "subscribed s"
  shows "\<exists>s1.
      handleFromRadio env \<lparr>fromRadio_id = k, fromRadio_payloadVariant = FromRadio_rebooted b\<rparr> s
        = Inr s1
    \<and> deviceStatus s1 = DEVICE_CONFIGURING \<and> \<not> isConfigured s1
    \<and> onDeviceStatus DEVICE_CONFIGURING \<in> set (drop (length (trace s)) (trace s1))
    \<and> configId s1 = configId s \<and> randomDraws s1 = randomDraws s
    \<and> timeouts s1 =
        timeouts s @ [(0, ToRadio_toBinary env (ToRadio_wantConfigId (configId s)))]
    \<and> (\<forall>k' cid.
          deviceStatus (stateOf (handleFromRadio env (completeMsg k' cid) (runTimeout env s1)))
            = DEVICE_CONFIGURED
          \<and> isConfigured (stateOf (handleFromRadio env (completeMsg k' cid) (runTimeout env s1))))"
proof -
  let ?m = "\<lparr>fromRadio_id = k, fromRadio_payloadVariant = FromRadio_rebooted b\<rparr>"
  define s1 where "s1 = configure env (s\<lparr>trace := trace s @ [onFromRadio ?m]\<rparr>)"
  have run: "handleFromRadio env ?m s = Inr s1"
    by (simp add: handleFromRadio_def emit_onFromRadio Let_def s1_def)
  have st: "deviceStatus s1 = DEVICE_CONFIGURING" and nc: "\<not> isConfigured s1"
    and ev: "onDeviceStatus DEVICE_CONFIGURING \<in> set (drop (length (trace s)) (trace s1))"
    and ci: "configId s1 = configId s" and rd: "randomDraws s1 = randomDraws s"
    and tm: "timeouts s1 =
        timeouts s @ [(0, ToRadio_toBinary env (ToRadio_wantConfigId (configId s)))]"
    and sub: "subscribed s1"
    using assms by (simp_all add: s1_def configure_eq updateDeviceStatus_def emit_def Let_def)
  have fin: "deviceStatus (stateOf (handleFromRadio env (completeMsg k' cid) (runTimeout env s1)))
            = DEVICE_CONFIGURED
          \<and> isConfigured (stateOf (handleFromRadio env (completeMsg k' cid) (runTimeout env s1)))"
    for k' cid
  proof -
    let ?t = "(runTimeout env s1)\<lparr>trace := trace (runTimeout env s1) @ [onFromRadio (completeMsg k' cid)]
                 @ (if cid \<noteq> configId (runTimeout env s1)
                    then [invalidConfigId (configId (runTimeout env s1)) cid] else [])\<rparr>"
    have "subscribed ?t" "deviceStatus ?t \<noteq> DEVICE_CONFIGURED"
      by (simp_all add: sub st)
    then show ?thesis
      by (simp only: handleFromRadio_configComplete stateOf_simps followUp_configured
            followUp_isConfigured simp_thms)
  qed
  from run st nc ev ci rd tm fin show ?thesis by blast
qed

lemma rebooted_session_facts:
  "deviceStatus sessionConfigured = DEVICE_CONFIGURED" "subscribed sessionConfigured"
  "configId sessionConfigured = 42" "randomDraws sessionConfigured = 0"
  "timeouts sessionConfigured = []" "trace sessionConfigured = []"
  by (simp_all add: sessionConfigured_def session0_eq)

theorem rebooted_reconfigures_with_same_config_id_witness:
  "deviceStatus sessionConfigured = DEVICE_CONFIGURED \<and> subscribed sessionConfigured
   \<and> deviceStatus (stateOf (handleFromRadio env0
         \<lparr>fromRadio_id = 0, fromRadio_payloadVariant = FromRadio_rebooted True\<rparr> sessionConfigured))
       = DEVICE_CONFIGURING
   \<and> deviceStatus (stateOf (handleFromRadio env0 (completeMsg 1 42)
         (runTimeout env0 (stateOf (handleFromRadio env0
            \<lparr>fromRadio_id = 0, fromRadio_payloadVariant = FromRadio_rebooted True\<rparr>
            sessionConfigured)))))
       = DEVICE_CONFIGURED"
  using rebooted_reconfigures_with_same_config_id
    [OF rebooted_session_facts(1,2), of env0 0 True]
  by (auto simp: rebooted_session_facts)

text \<open>
  C1 as stated fails: after the rebooted notice the config id is still 42, no random value
  was drawn, and the scheduled want-config frame carries 42. And once \<open>complete\<close> has
  cancelled the subscriptions, the notice no longer moves the status at all.
\<close>

theorem rebooted_keeps_config_id_counterexample:
  "deviceStatus sessionConfigured = DEVICE_CONFIGURED
   \<and> configId (stateOf (handleFromRadio env0
         \<lparr>fromRadio_id = 0, fromRadio_payloadVariant = FromRadio_rebooted True\<rparr> sessionConfigured))
       = configId sessionConfigured
   \<and> randomDraws (stateOf (handleFromRadio env0
         \<lparr>fromRadio_id = 0, fromRadio_payloadVariant = FromRadio_rebooted True\<rparr> sessionConfigured))
       = randomDraws sessionConfigured
   \<and> timeouts (stateOf (handleFromRadio env0
         \<lparr>fromRadio_id = 0, fromRadio_payloadVariant = FromRadio_rebooted True\<rparr> sessionConfigured))
       = [(0, ToRadio_toBinary env0 (ToRadio_wantConfigId 42))]
   \<and> deviceStatus (complete sessionConfigured) = DEVICE_CONFIGURED
   \<and> deviceStatus (stateOf (handleFromRadio env0
         \<lparr>fromRadio_id = 0, fromRadio_payloadVariant = FromRadio_rebooted True\<rparr>
         (complete sessionConfigured)))
       = DEVICE_CONFIGURED"
  by (simp add: handleFromRadio_def emit_onFromRadio Let_def configure_eq
        updateDeviceStatus_def emit_def rebooted_session_facts complete_def clear_def)

section \<open>Acknowledgments and disconnect\<close>

text \<open>
  The port dispatch only logs and emits: it leaves the queue alone, and none of its events
  is a write to the transport or a call of a callback.
\<close>

lemma queue_emit [simp]: "queue (emit e s) = queue s"
  by (simp add: emit_def Let_def split: Event.split)

lemma isQueueEvent_simps [simp]:
  "isQueueEvent (writeToRadio b)" "isQueueEvent (callbackCalled n a)"
  "\<not> isQueueEvent (onLogEvent l)" "\<not> isQueueEvent (onFromRadio fr)"
  "\<not> isQueueEvent (onMeshPacket p)" "\<not> isQueueEvent (onMyNodeInfo mi)"
  "\<not> isQueueEvent (onNodeInfoPacket p ni)" "\<not> isQueueEvent (onUserPacket p u)"
  "\<not> isQueueEvent (onChannelPacket p ch)" "\<not> isQueueEvent (onConfigPacket p cf)"
  "\<not> isQueueEvent (onModuleConfigPacket p mc)" "\<not> isQueueEvent (onPingPacket p b)"
  "\<not> isQueueEvent (onIpTunnelPacket p b)" "\<not> isQueueEvent (onSerialPacket p b)"
  "\<not> isQueueEvent (onStoreForwardPacket p b)" "\<not> isQueueEvent (onRangeTestPacket p b)"
  "\<not> isQueueEvent (onTelemetryPacket p te)" "\<not> isQueueEvent (onPrivatePacket p b)"
  "\<not> isQueueEvent (onAtakPacket p b)" "\<not> isQueueEvent (onRoutingPacket p ro)"
  "\<not> isQueueEvent (onPositionPacket p po)" "\<not> isQueueEvent (onTextPacket p t)"
  "\<not> isQueueEvent (onRemoteHardwarePacket p hm)" "\<not> isQueueEvent (onDeviceStatus st)"
  "\<not> isQueueEvent (onLogRecord lr)" "\<not> isQueueEvent onMeshHeartbeat"
  "\<not> isQueueEvent (clearInterval h)"
  by (simp_all add: isQueueEvent_def)

lemma handleDataPacket_events:
  "take (length (trace s)) (trace (stateOf (handleDataPacket env d p s))) = trace s
   \<and> filter isQueueEvent (drop (length (trace s)) (trace (stateOf (handleDataPacket env d p s)))) = []
   \<and> queue (stateOf (handleDataPacket env d p s)) = queue s"
  by (cases "portnum d")
    (simp_all add: handleDataPacket_def received_def decodeThen_def log_entry Let_def
       trace_emit split: option.split AdminMessage.split)

text \<open>
  C6, as the code has it. For a decoded packet the request id is passed to \<open>processAck\<close>
  whatever its value, zero included, right after the packet and heartbeat events; the port
  dispatch runs on the session \<open>sA\<close> that \<open>processAck\<close> returns: its events come after
  those of the acknowledgment, none of them is a queue event, and it leaves the queue as
  \<open>processAck\<close> left it.
\<close>

theorem handleMeshPacket_ack_before_dispatch:
  assumes "payloadVariant p = decoded d"
  shows "\<exists>sA evs.
      sA = processAck env (requestId d)
             (s\<lparr>trace := trace s @ [onMeshPacket p]
                  @ (if from' p \<noteq> myNodeNum (myNodeInfo s) then [onMeshHeartbeat] else [])\<rparr>)
    \<and> queue sA = ackQueue env (requestId d) (queue s)
    \<and> trace (stateOf (handleMeshPacket env p s)) = trace sA @ evs
    \<and> filter isQueueEvent evs = []
    \<and> queue (stateOf (handleMeshPacket env p s)) = queue sA"
proof -
  define sA where "sA = processAck env (requestId d)
             (s\<lparr>trace := trace s @ [onMeshPacket p]
                  @ (if from' p \<noteq> myNodeNum (myNodeInfo s) then [onMeshHeartbeat] else [])\<rparr>)"
  define evs where "evs = drop (length (trace sA)) (trace (stateOf (handleDataPacket env d p sA)))"
  have run: "handleMeshPacket env p s = handleDataPacket env d p sA"
    using assms
    by (simp add: handleMeshPacket_def emit_onMeshPacket emit_onMeshHeartbeat Let_def sA_def)
  have qa: "queue sA = ackQueue env (requestId d) (queue s)"
    by (simp add: sA_def processAck_eq2)
  from handleDataPacket_events [of sA env d p]
  have t: "take (length (trace sA)) (trace (stateOf (handleDataPacket env d p sA))) = trace sA"
    and f: "filter isQueueEvent evs = []"
    and q: "queue (stateOf (handleDataPacket env d p sA)) = queue sA"
    by (simp_all add: evs_def)
  have "trace (stateOf (handleDataPacket env d p sA)) = trace sA @ evs"
    using append_take_drop_id [of "length (trace sA)" "trace (stateOf (handleDataPacket env d p sA))"]
    by (simp only: t evs_def)
  then have tr: "trace (stateOf (handleMeshPacket env p s)) = trace sA @ evs"
    by (simp only: run)
  from q have q': "queue (stateOf (handleMeshPacket env p s)) = queue sA"
    by (simp only: run)
  show ?thesis
    by (rule exI [of _ sA], rule exI [of _ evs]) (intro conjI sA_def qa tr f q')
qed

lemma sessionAwaiting_eq:
  "sessionAwaiting =
     session0\<lparr>deviceStatus := DEVICE_CONFIGURING,
       queue := [\<lparr>item_id = 0, item_data = [2], item_callback = Resolve, waitingAck = True\<rparr>],
       trace := [logEntry Emitter_configure [Str ''Reading device configuration''] DEBUG None,
                 onDeviceStatus DEVICE_CONFIGURING, writeToRadio [2]]\<rparr>"
  by (simp add: sessionAwaiting_def configure_eq updateDeviceStatus_def emit_def Let_def
        runTimeout_def sendRaw_eq session0_eq queueAfter_def framesOf_def itemOf_def)
    (simp add: env1_def env0_def)

lemma packet0_payload:
  "payloadVariant packet0 =
     decoded \<lparr>payload = [], portnum = TEXT_MESSAGE_APP, wantResponse = False,
              location = None, emoji = 0, replyId = 0, dest = 0, requestId = 0, source = 0\<rparr>"
  by (simp add: packet0_def)

text \<open>
  C6 as stated fails: a packet whose request id is 0 resolves the queued want-config item,
  which has the id 0.
\<close>

theorem zero_request_id_resolves_counterexample:
  "payloadVariant packet0 =
     decoded \<lparr>payload = [], portnum = TEXT_MESSAGE_APP, wantResponse = False,
              location = None, emoji = 0, replyId = 0, dest = 0, requestId = 0, source = 0\<rparr>
   \<and> queue sessionAwaiting =
       [\<lparr>item_id = 0, item_data = [2], item_callback = Resolve, waitingAck = True\<rparr>]
   \<and> queue (stateOf (handleMeshPacket env1 packet0 sessionAwaiting)) = []"
  by (simp add: packet0_payload handleMeshPacket_text [OF packet0_payload] sessionAwaiting_eq
        ackQueue_def queueAfter_def)

theorem handleMeshPacket_ack_before_dispatch_witness:
  "payloadVariant packet0 =
     decoded \<lparr>payload = [], portnum = TEXT_MESSAGE_APP, wantResponse = False,
              location = None, emoji = 0, replyId = 0, dest = 0, requestId = 0, source = 0\<rparr>
   \<and> queue (stateOf (handleMeshPacket env1 packet0 sessionAwaiting)) =
       ackQueue env1 0 (queue sessionAwaiting)
   \<and> ackQueue env1 0 (queue sessionAwaiting) = []"
  using handleMeshPacket_ack_before_dispatch [OF packet0_payload, of env1 sessionAwaiting]
  by (auto simp: packet0_payload sessionAwaiting_eq ackQueue_def queueAfter_def)

lemma disconnect_eq:
  "disconnect s =
     (case readLoop s of
        None \<Rightarrow> updateDeviceStatus DEVICE_DISCONNECTED (s\<lparr>aborted := True\<rparr>)
      | Some h \<Rightarrow>
          (updateDeviceStatus DEVICE_DISCONNECTED (s\<lparr>aborted := True\<rparr>))
            \<lparr>queue := [], subscribed := False,
             trace := trace (updateDeviceStatus DEVICE_DISCONNECTED (s\<lparr>aborted := True\<rparr>))
                      @ [clearInterval h]\<rparr>)"
  by (simp add: disconnect_def Let_def complete_def clear_def updateDeviceStatus_def emit_def
        split: option.split)

text \<open>
  C4, as the code has it. \<open>disconnect\<close> always aborts and asks for the status
  \<open>DEVICE_DISCONNECTED\<close> (reached when the status subscription is attached). Only when a
  read loop was started does it clear the interval, cancel the subscriptions and clear the
  queue, calling no callback; from then on a status update no longer changes the status.
  With no read loop the queue and the subscriptions stay as they were.
\<close>

theorem disconnect_clears_only_with_read_loop:
  "aborted (disconnect s)
   \<and> (subscribed s \<longrightarrow> deviceStatus (disconnect s) = DEVICE_DISCONNECTED)
   \<and> trace (disconnect s) =
       trace s
       @ (if deviceStatus s \<noteq> DEVICE_DISCONNECTED then [onDeviceStatus DEVICE_DISCONNECTED] else [])
       @ (case readLoop s of Some h \<Rightarrow> [clearInterval h] | None \<Rightarrow> [])
   \<and> (readLoop s \<noteq> None \<longrightarrow>
        queue (disconnect s) = [] \<and> \<not> subscribed (disconnect s)
        \<and> (\<forall>st. deviceStatus (updateDeviceStatus st (disconnect s)) = deviceStatus (disconnect s)))
   \<and> (readLoop s = None \<longrightarrow>
        queue (disconnect s) = queue s \<and> subscribed (disconnect s) = subscribed s)"
  by (cases "readLoop s")
    (simp_all add: disconnect_eq updateDeviceStatus_def emit_def Let_def)

lemma httpQueued_facts:
  "readLoop httpQueued = None" "subscribed httpQueued"
  "queue httpQueued =
     [\<lparr>item_id = 5, item_data = [1, 2, 3], item_callback = Resolve, waitingAck = True\<rparr>]"
  "deviceStatus httpQueued = DEVICE_DISCONNECTED"
  by (simp_all add: httpQueued_def IHTTPConnection_constructor_def constructor_def
        IMeshDevice.defs IHTTPConnection.defs sendRaw_eq queueAfter_def itemOf_def env1_def env0_def)

lemma httpPolling_facts:
  "readLoop httpPolling = Some 1" "subscribed httpPolling"
  "queue httpPolling =
     [\<lparr>item_id = 5, item_data = [1, 2, 3], item_callback = Resolve, waitingAck = True\<rparr>]"
  "deviceStatus httpPolling = DEVICE_CONNECTED"
  by (simp_all add: httpPolling_def httpQueued_facts)

text \<open>
  C4 as stated fails: with no read loop started, \<open>disconnect\<close> leaves the pending item
  in the queue and the subscriptions attached.
\<close>

theorem disconnect_without_read_loop_counterexample:
  "readLoop httpQueued = None
   \<and> queue httpQueued =
       [\<lparr>item_id = 5, item_data = [1, 2, 3], item_callback = Resolve, waitingAck = True\<rparr>]
   \<and> queue (disconnect httpQueued) =
       [\<lparr>item_id = 5, item_data = [1, 2, 3], item_callback = Resolve, waitingAck = True\<rparr>]
   \<and> subscribed (disconnect httpQueued)"
  by (simp add: disconnect_eq httpQueued_facts updateDeviceStatus_def)

theorem disconnect_clears_only_with_read_loop_witness:
  "subscribed httpPolling \<and> readLoop httpPolling \<noteq> None \<and> queue httpPolling \<noteq> []
   \<and> deviceStatus (disconnect httpPolling) = DEVICE_DISCONNECTED
   \<and> queue (disconnect httpPolling) = []
   \<and> \<not> subscribed (disconnect httpPolling)
   \<and> readLoop httpQueued = None
   \<and> queue (disconnect httpQueued) = queue httpQueued"
  using disconnect_clears_only_with_read_loop [of httpPolling]
        disconnect_clears_only_with_read_loop [of httpQueued]
  by (simp add: httpPolling_facts httpQueued_facts)

end
